theory Spec2Isabelle
  imports
    Complex_Main
    "HOL-Library.Char_ord"
    "HOL-Library.List_Lexorder"
    "HOL-Library.Product_Lexorder"
begin

section \<open>The case simulator's data store (src/app.py, class DataStore)\<close>

text \<open>
  The store is the dictionary \<^verbatim>\<open>self.data\<close> with the keys rarities, items, inventory,
  history, stats and settings. Its dictionaries of fixed shape are records here, its
  id-keyed dictionaries are maps, its lists are lists.

  Python's numbers (\<^verbatim>\<open>float\<close>, and \<^verbatim>\<open>int\<close> where the two mix) are exact rationals:
  comparison and addition are those of the source, rounding error, infinities and NaN are
  outside the model. Quantities and counters that the source only ever moves by whole
  numbers are \<^typ>\<open>int\<close>.

  The values a call takes from its environment (\<^verbatim>\<open>uuid.uuid4()\<close>, \<^verbatim>\<open>time.time()\<close>, the
  generator behind \<^verbatim>\<open>random.uniform\<close>) are arguments of the model, so that every
  operation is a function from the old store to a response and the new store.
  \<^verbatim>\<open>save()\<close> writes the store to the file and leaves the store as it is; the file is not
  part of the store.
\<close>

subsection \<open>Data model\<close>

record rarity =
  rid :: string
  rname :: string
  min_roll :: rat
  max_roll :: rat
  color :: string

record item =
  iid :: string
  iname :: string
  rarity_id :: string
  weight :: rat
  image_path :: string
  description :: string

record settings =
  roll_min :: rat
  roll_max :: rat
  open_price :: rat

record stats =
  total_opened :: int
  total_spent :: rat
  by_rarity :: "string \<rightharpoonup> int"
  by_item :: "string \<rightharpoonup> int"

text \<open>One element of the list \<^verbatim>\<open>result\<close> of \<^verbatim>\<open>open_case\<close>.\<close>

record draw_result =
  dr_roll :: rat
  dr_rarity :: rarity
  dr_item :: item

text \<open>
  The payload of a history entry is a dictionary whose shape depends on the action;
  one constructor per shape the source builds. A payload is the value the dictionary
  has when the entry is appended (what \<^verbatim>\<open>save()\<close> then writes).
\<close>

datatype payload =
    POpenCase int "draw_result list" nat
      \<comment> \<open>\<^verbatim>\<open>{"times": times, "results": result[:10], "count_results": len(result)}\<close>\<close>
  | PRarity rarity
  | PItem item
  | PRarityId string
  | PItemId string
  | PDelta string int
  | PSettings settings
  | PEmpty

record entry =
  eid :: string
  timestamp :: int
  action :: string
  payload :: payload

record store =
  rarities :: "rarity list"
  items :: "item list"
  inventory :: "string \<rightharpoonup> int"
  history :: "entry list"
  stats :: stats
  settings :: settings

text \<open>
  The messages of the failure responses \<^verbatim>\<open>{"ok": False, "message": msg}\<close>, one
  constructor per message text of the source, with the names the text interpolates.
\<close>

datatype message =
    RollMinNotBelowRollMax
      \<comment> \<open>"roll_min must be less than roll_max"\<close>
  | MinAboveMax string
      \<comment> \<open>"rarity NAME has min_roll > max_roll"\<close>
  | RangesOverlap string string
      \<comment> \<open>"the ranges of NAME and NAME overlap"\<close>
  | RarityNotFound
  | RarityHasItems
      \<comment> \<open>"a rarity cannot be deleted while items are linked to it"\<close>
  | RarityDoesNotExist
      \<comment> \<open>"the given rarity does not exist"\<close>
  | ItemNotFound
  | NotEnoughItems
      \<comment> \<open>"not enough items in the inventory"\<close>

datatype py_error = KeyError | IndexError | TypeError | ValueError

datatype response =
    Ok
      \<comment> \<open>\<^verbatim>\<open>{"ok": True, "state": self.state()}\<close>\<close>
  | OkResults "draw_result list"
      \<comment> \<open>\<^verbatim>\<open>{"ok": True, "results": result, "state": self.state()}\<close>\<close>
  | Fail message
  | Raised py_error
      \<comment> \<open>the call raises instead of returning\<close>

text \<open>What a call reads from its environment.\<close>

record env =
  new_id :: string
    \<comment> \<open>the \<^verbatim>\<open>uuid4()\<close> of a rarity or item the call creates\<close>
  hist_id :: string
    \<comment> \<open>the \<^verbatim>\<open>uuid4()\<close> of the history entry the call appends\<close>
  now :: int
    \<comment> \<open>\<^verbatim>\<open>int(time.time())\<close>\<close>
  rand :: "nat \<Rightarrow> rat"
    \<comment> \<open>the values \<^verbatim>\<open>random.random()\<close> returns, in order\<close>

text \<open>The dictionary \<^verbatim>\<open>self.data\<close> as \<^verbatim>\<open>__init__\<close> builds it.\<close>

definition initial_data :: store where
  "initial_data =
     \<lparr> rarities = [], items = [], inventory = Map.empty, history = [],
       stats = \<lparr> total_opened = 0, total_spent = 0,
                 by_rarity = Map.empty, by_item = Map.empty \<rparr>,
       settings = \<lparr> roll_min = 0, roll_max = 100, open_price = 1 \<rparr> \<rparr>"

subsection \<open>History\<close>

text \<open>\<^verbatim>\<open>_append_history\<close>: insert at index 0, then keep the first 500 entries.\<close>

definition append_history :: "env \<Rightarrow> string \<Rightarrow> payload \<Rightarrow> store \<Rightarrow> store" where
  "append_history e act p s =
     s\<lparr> history :=
          take 500 (\<lparr> eid = hist_id e, timestamp = now e, action = act, payload = p \<rparr>
                    # history s) \<rparr>"

subsection \<open>Draw engine\<close>

text \<open>\<^verbatim>\<open>_roll_rarity\<close>: the loop over the stored list returns at the first match.\<close>

fun roll_rarity :: "rarity list \<Rightarrow> rat \<Rightarrow> rarity option" where
  "roll_rarity [] roll = None"
| "roll_rarity (r # rs) roll =
     (if min_roll r \<le> roll \<and> roll \<le> max_roll r then Some r else roll_rarity rs roll)"

text \<open>
  The walk of \<^verbatim>\<open>_pick_item_by_rarity\<close> over the candidates: \<^verbatim>\<open>current\<close> accumulates
  the weights, the first candidate with \<^verbatim>\<open>point <= current\<close> is returned, and
  \<open>fallback\<close>, which is \<^verbatim>\<open>candidates[-1]\<close>, when the loop ends without a return.
\<close>

fun walk :: "rat \<Rightarrow> rat \<Rightarrow> item \<Rightarrow> item list \<Rightarrow> item" where
  "walk point current fallback [] = fallback"
| "walk point current fallback (i # is) =
     (if point \<le> current + weight i then i
      else walk point (current + weight i) fallback is)"

text \<open>
  \<^verbatim>\<open>random.uniform(a, b)\<close> is \<^verbatim>\<open>a + (b - a) * random()\<close>; it uses the next value of the
  generator.
\<close>

definition uniform :: "rat \<Rightarrow> rat \<Rightarrow> (nat \<Rightarrow> rat) \<Rightarrow> rat \<times> (nat \<Rightarrow> rat)" where
  "uniform a b g = (a + (b - a) * g 0, \<lambda>n. g (Suc n))"

definition candidates :: "item list \<Rightarrow> string \<Rightarrow> item list" where
  "candidates its r = filter (\<lambda>i. rarity_id i = r \<and> weight i > 0) its"

definition pick_item_by_rarity ::
  "item list \<Rightarrow> string \<Rightarrow> (nat \<Rightarrow> rat) \<Rightarrow> item option \<times> (nat \<Rightarrow> rat)" where
  "pick_item_by_rarity its r g =
     (case candidates its r of
        [] \<Rightarrow> (None, g)
      | c # cs \<Rightarrow>
          (let total_weight = sum_list (map weight (c # cs));
               (point, g') = uniform 0 total_weight g
           in (Some (walk point 0 (last (c # cs)) (c # cs)), g')))"

subsection \<open>Validator\<close>

text \<open>
  \<^verbatim>\<open>_validate_rarity_ranges\<close> returns \<^verbatim>\<open>(False, msg)\<close> or \<^verbatim>\<open>(True, "ok")\<close>: here
  \<open>Some msg\<close> or \<open>None\<close>. The triples \<^verbatim>\<open>(min_roll, max_roll, name)\<close> are sorted as
  Python sorts tuples, lexicographically.
\<close>

fun first_inverted :: "rarity list \<Rightarrow> message option" where
  "first_inverted [] = None"
| "first_inverted (r # rs) =
     (if min_roll r > max_roll r then Some (MinAboveMax (rname r)) else first_inverted rs)"

fun first_overlap :: "(rat \<times> rat \<times> string) list \<Rightarrow> message option" where
  "first_overlap (a # b # rest) =
     (if fst b < fst (snd a) then Some (RangesOverlap (snd (snd a)) (snd (snd b)))
      else first_overlap (b # rest))"
| "first_overlap _ = None"

definition validate_rarity_ranges :: "store \<Rightarrow> message option" where
  "validate_rarity_ranges s =
     (if roll_min (settings s) \<ge> roll_max (settings s) then Some RollMinNotBelowRollMax
      else case first_inverted (rarities s) of
        Some m \<Rightarrow> Some m
      | None \<Rightarrow>
          first_overlap (sort (map (\<lambda>r. (min_roll r, max_roll r, rname r)) (rarities s))))"

subsection \<open>Request payloads\<close>

text \<open>
  The dictionaries the callers pass. A key can be absent: \<open>None\<close>. The numeric values
  are numbers already, so that \<^verbatim>\<open>float(...)\<close> of them does not raise.
\<close>

record rarity_payload =
  p_name :: "string option"
  p_min_roll :: "rat option"
  p_max_roll :: "rat option"
  p_color :: "string option"

record item_payload =
  ip_name :: "string option"
  ip_rarity_id :: "string option"
  ip_weight :: "rat option"
  ip_image_path :: "string option"
  ip_description :: "string option"

record settings_payload =
  sp_roll_min :: "rat option"
  sp_roll_max :: "rat option"
  sp_open_price :: "rat option"

text \<open>\<^verbatim>\<open>payload.get(key, default)\<close>.\<close>

definition dict_get :: "'a option \<Rightarrow> 'a \<Rightarrow> 'a" where
  "dict_get v d = (case v of None \<Rightarrow> d | Some x \<Rightarrow> x)"

text \<open>
  \<^verbatim>\<open>_rarity_map\<close> and \<^verbatim>\<open>_item_map\<close>: a dictionary comprehension, in which a later
  element with the same id replaces an earlier one.
\<close>

definition rarity_map :: "store \<Rightarrow> (string \<rightharpoonup> rarity)" where
  "rarity_map s = map_of (rev (map (\<lambda>r. (rid r, r)) (rarities s)))"

definition item_map :: "store \<Rightarrow> (string \<rightharpoonup> item)" where
  "item_map s = map_of (rev (map (\<lambda>i. (iid i, i)) (items s)))"

text \<open>
  \<^verbatim>\<open>for x in xs: if x["id"] == the_id: ...; return\<close> changes the first element with the
  id, in place.
\<close>

fun replace_first :: "('a \<Rightarrow> bool) \<Rightarrow> 'a \<Rightarrow> 'a list \<Rightarrow> 'a list" where
  "replace_first P y [] = []"
| "replace_first P y (x # xs) = (if P x then y # xs else x # replace_first P y xs)"

subsection \<open>Opening cases\<close>

text \<open>
  \<^verbatim>\<open>round(roll, 3)\<close>: to three decimals, a tie to the even neighbour.
\<close>

definition round_half_even :: "rat \<Rightarrow> int" where
  "round_half_even q =
     (let f = \<lfloor>q\<rfloor>; d = q - of_int f
      in if d < 1 / 2 then f else if d > 1 / 2 then f + 1 else if even f then f else f + 1)"

definition round3 :: "rat \<Rightarrow> rat" where
  "round3 q = of_int (round_half_even (q * 1000)) / 1000"

text \<open>The five updates of a successful draw, lines 148 to 153.\<close>

definition record_draw :: "rarity \<Rightarrow> item \<Rightarrow> store \<Rightarrow> store" where
  "record_draw r i s =
     s\<lparr> inventory := (inventory s)(iid i \<mapsto> dict_get (inventory s (iid i)) 0 + 1),
        stats := (stats s)
          \<lparr> total_opened := total_opened (stats s) + 1,
            total_spent := total_spent (stats s) + open_price (settings s),
            by_rarity := (by_rarity (stats s))
               (rid r \<mapsto> dict_get (by_rarity (stats s) (rid r)) 0 + 1),
            by_item := (by_item (stats s))
               (iid i \<mapsto> dict_get (by_item (stats s) (iid i)) 0 + 1) \<rparr> \<rparr>"

text \<open>
  One iteration of the loop of \<^verbatim>\<open>open_case\<close>, on the generator, the store and the list
  \<^verbatim>\<open>result\<close>. The two \<^verbatim>\<open>continue\<close> leave the store and the list as they are.
\<close>

definition draw ::
  "(nat \<Rightarrow> rat) \<times> store \<times> draw_result list \<Rightarrow> (nat \<Rightarrow> rat) \<times> store \<times> draw_result list" where
  "draw = (\<lambda>(g, s, result).
     let (roll, g1) = uniform (roll_min (settings s)) (roll_max (settings s)) g
     in case roll_rarity (rarities s) roll of
          None \<Rightarrow> (g1, s, result)
        | Some r \<Rightarrow>
            (case pick_item_by_rarity (items s) (rid r) g1 of
               (None, g2) \<Rightarrow> (g2, s, result)
             | (Some i, g2) \<Rightarrow>
                 (g2, record_draw r i s,
                  result @ [\<lparr> dr_roll = round3 roll, dr_rarity = r, dr_item = i \<rparr>])))"

text \<open>\<^verbatim>\<open>for _ in range(times)\<close>.\<close>

fun draws ::
  "nat \<Rightarrow> (nat \<Rightarrow> rat) \<times> store \<times> draw_result list \<Rightarrow> (nat \<Rightarrow> rat) \<times> store \<times> draw_result list" where
  "draws 0 st = st"
| "draws (Suc n) st = draws n (draw st)"

definition clamp_times :: "int \<Rightarrow> int" where
  "clamp_times n = max 1 (min 100 n)"

definition open_case :: "env \<Rightarrow> int \<Rightarrow> store \<Rightarrow> response \<times> store" where
  "open_case e n s =
     (let times' = clamp_times n
      in case validate_rarity_ranges s of
           Some msg \<Rightarrow> (Fail msg, s)
         | None \<Rightarrow>
             (let (g, s1, result) = draws (nat times') (rand e, s, [])
              in (OkResults result,
                  append_history e ''open_case''
                    (POpenCase times' (take 10 result) (length result)) s1)))"

subsection \<open>Editing the catalog\<close>

definition add_rarity :: "env \<Rightarrow> rarity_payload \<Rightarrow> store \<Rightarrow> response \<times> store" where
  "add_rarity e p s =
     (case (p_name p, p_min_roll p, p_max_roll p) of
        (Some n, Some lo, Some hi) \<Rightarrow>
          (let entry = \<lparr> rid = new_id e, rname = n, min_roll = lo, max_roll = hi,
                         color = dict_get (p_color p) ''#888888'' \<rparr>;
               s1 = s\<lparr> rarities := rarities s @ [entry] \<rparr>
           in case validate_rarity_ranges s1 of
                Some msg \<Rightarrow> (Fail msg, s1\<lparr> rarities := butlast (rarities s1) \<rparr>)
              | None \<Rightarrow> (Ok, append_history e ''add_rarity'' (PRarity entry) s1))
      | _ \<Rightarrow> (Raised KeyError, s))"

definition patch_rarity :: "rarity_payload \<Rightarrow> rarity \<Rightarrow> rarity" where
  "patch_rarity p r =
     r\<lparr> rname := dict_get (p_name p) (rname r),
        min_roll := dict_get (p_min_roll p) (min_roll r),
        max_roll := dict_get (p_max_roll p) (max_roll r),
        color := dict_get (p_color p) (color r) \<rparr>"

definition update_rarity :: "env \<Rightarrow> string \<Rightarrow> rarity_payload \<Rightarrow> store \<Rightarrow> response \<times> store" where
  "update_rarity e the_id p s =
     (case find (\<lambda>r. rid r = the_id) (rarities s) of
        None \<Rightarrow> (Fail RarityNotFound, s)
      | Some r \<Rightarrow>
          (let r' = patch_rarity p r;
               s1 = s\<lparr> rarities := replace_first (\<lambda>r. rid r = the_id) r' (rarities s) \<rparr>
           in case validate_rarity_ranges s1 of
                Some msg \<Rightarrow> (Fail msg, s1)
              | None \<Rightarrow> (Ok, append_history e ''update_rarity'' (PRarity r') s1)))"

definition delete_rarity :: "env \<Rightarrow> string \<Rightarrow> store \<Rightarrow> response \<times> store" where
  "delete_rarity e the_id s =
     (if list_ex (\<lambda>i. rarity_id i = the_id) (items s) then (Fail RarityHasItems, s)
      else
        let before = length (rarities s);
            s1 = s\<lparr> rarities := filter (\<lambda>r. rid r \<noteq> the_id) (rarities s) \<rparr>
        in if length (rarities s1) = before then (Fail RarityNotFound, s1)
           else (Ok, append_history e ''delete_rarity'' (PRarityId the_id) s1))"

definition add_item :: "env \<Rightarrow> item_payload \<Rightarrow> store \<Rightarrow> response \<times> store" where
  "add_item e p s =
     (case ip_rarity_id p of
        None \<Rightarrow> (Raised KeyError, s)
      | Some r \<Rightarrow>
          if rarity_map s r = None then (Fail RarityDoesNotExist, s)
          else case ip_name p of
            None \<Rightarrow> (Raised KeyError, s)
          | Some n \<Rightarrow>
              (let item = \<lparr> iid = new_id e, iname = n, rarity_id = r,
                            weight = dict_get (ip_weight p) 1,
                            image_path = dict_get (ip_image_path p) '''',
                            description = dict_get (ip_description p) '''' \<rparr>
               in (Ok, append_history e ''add_item'' (PItem item)
                         (s\<lparr> items := items s @ [item] \<rparr>))))"

definition patch_item :: "item_payload \<Rightarrow> item \<Rightarrow> item" where
  "patch_item p i =
     i\<lparr> iname := dict_get (ip_name p) (iname i),
        rarity_id := dict_get (ip_rarity_id p) (rarity_id i),
        weight := dict_get (ip_weight p) (weight i),
        image_path := dict_get (ip_image_path p) (image_path i),
        description := dict_get (ip_description p) (description i) \<rparr>"

definition update_item :: "env \<Rightarrow> string \<Rightarrow> item_payload \<Rightarrow> store \<Rightarrow> response \<times> store" where
  "update_item e the_id p s =
     (case find (\<lambda>i. iid i = the_id) (items s) of
        None \<Rightarrow> (Fail ItemNotFound, s)
      | Some i \<Rightarrow>
          if (case ip_rarity_id p of None \<Rightarrow> False | Some r \<Rightarrow> rarity_map s r = None)
          then (Fail RarityDoesNotExist, s)
          else
            let i' = patch_item p i
            in (Ok, append_history e ''update_item'' (PItem i')
                      (s\<lparr> items := replace_first (\<lambda>i. iid i = the_id) i' (items s) \<rparr>)))"

definition delete_item :: "env \<Rightarrow> string \<Rightarrow> store \<Rightarrow> response \<times> store" where
  "delete_item e the_id s =
     (let before = length (items s);
          s1 = s\<lparr> items := filter (\<lambda>i. iid i \<noteq> the_id) (items s) \<rparr>
      in if length (items s1) = before then (Fail ItemNotFound, s1)
         else (Ok, append_history e ''delete_item'' (PItemId the_id)
                     (s1\<lparr> inventory := (inventory s1)(the_id := None) \<rparr>)))"

subsection \<open>Inventory, settings, history and statistics\<close>

definition adjust_inventory :: "env \<Rightarrow> string \<Rightarrow> int \<Rightarrow> store \<Rightarrow> response \<times> store" where
  "adjust_inventory e the_id delta s =
     (if item_map s the_id = None then (Fail ItemNotFound, s)
      else
        let cur = dict_get (inventory s the_id) 0;
            new_val = cur + delta
        in if new_val < 0 then (Fail NotEnoughItems, s)
           else
             let s1 = (if new_val = 0 then s\<lparr> inventory := (inventory s)(the_id := None) \<rparr>
                       else s\<lparr> inventory := (inventory s)(the_id \<mapsto> new_val) \<rparr>);
                 act = (if delta < 0 then ''consume_item'' else ''add_inventory'')
             in (Ok, append_history e act (PDelta the_id delta) s1))"

text \<open>
  \<^verbatim>\<open>for key in ("roll_min", "roll_max", "open_price"): if key in payload: s[key] = ...\<close>
\<close>

definition patch_settings :: "settings_payload \<Rightarrow> settings \<Rightarrow> settings" where
  "patch_settings p st =
     st\<lparr> roll_min := dict_get (sp_roll_min p) (roll_min st),
         roll_max := dict_get (sp_roll_max p) (roll_max st),
         open_price := dict_get (sp_open_price p) (open_price st) \<rparr>"

definition update_settings :: "env \<Rightarrow> settings_payload \<Rightarrow> store \<Rightarrow> response \<times> store" where
  "update_settings e p s =
     (let s1 = s\<lparr> settings := patch_settings p (settings s) \<rparr>
      in case validate_rarity_ranges s1 of
           Some msg \<Rightarrow> (Fail msg, s1)
         | None \<Rightarrow> (Ok, append_history e ''update_settings'' (PSettings (settings s1)) s1))"

definition clear_history :: "store \<Rightarrow> response \<times> store" where
  "clear_history s = (Ok, s\<lparr> history := [] \<rparr>)"

definition reset_stats :: "env \<Rightarrow> store \<Rightarrow> response \<times> store" where
  "reset_stats e s =
     (Ok, append_history e ''reset_stats'' PEmpty
            (s\<lparr> stats := \<lparr> total_opened = 0, total_spent = 0,
                            by_rarity = Map.empty, by_item = Map.empty \<rparr> \<rparr>))"

subsection \<open>The requests of class API\<close>

datatype request =
    OpenCase int
  | AddRarity rarity_payload
  | UpdateRarity string rarity_payload
  | DeleteRarity string
  | AddItem item_payload
  | UpdateItem string item_payload
  | DeleteItem string
  | AdjustInventory string int
  | UpdateSettings settings_payload
  | ClearHistory
  | ResetStats
  | GetState

fun handle :: "env \<Rightarrow> request \<Rightarrow> store \<Rightarrow> response \<times> store" where
  "handle e (OpenCase n) s = open_case e n s"
| "handle e (AddRarity p) s = add_rarity e p s"
| "handle e (UpdateRarity the_id p) s = update_rarity e the_id p s"
| "handle e (DeleteRarity the_id) s = delete_rarity e the_id s"
| "handle e (AddItem p) s = add_item e p s"
| "handle e (UpdateItem the_id p) s = update_item e the_id p s"
| "handle e (DeleteItem the_id) s = delete_item e the_id s"
| "handle e (AdjustInventory the_id delta) s = adjust_inventory e the_id delta s"
| "handle e (UpdateSettings p) s = update_settings e p s"
| "handle e ClearHistory s = clear_history s"
| "handle e ResetStats s = reset_stats e s"
| "handle e GetState s = (Ok, s)"

text \<open>A sequence of requests, each with what it reads from its environment.\<close>

fun run :: "(env \<times> request) list \<Rightarrow> store \<Rightarrow> store" where
  "run [] s = s"
| "run ((e, q) # qs) s = run qs (snd (handle e q s))"

section \<open>Startup (\<^verbatim>\<open>_load_or_create_defaults\<close>)\<close>

text \<open>
  At startup \<^verbatim>\<open>self.data\<close> is whatever the file gives: \<^verbatim>\<open>self.data.update(loaded)\<close>
  takes any value that \<^verbatim>\<open>json.load\<close> returns. The values of the dictionary are
  therefore JSON values here, and the operations Python applies to them (truth value,
  subscript, \<^verbatim>\<open>dict.update\<close>) return an error where Python raises.
\<close>

datatype json =
    JNull
  | JBool bool
  | JNum rat
  | JStr string
  | JArr "json list"
  | JObj "(string \<times> json) list"
      \<comment> \<open>the keys in the order of the document, each key once\<close>

text \<open>
  What reading the file gives. \<^verbatim>\<open>os.path.exists\<close> is false: \<open>Missing\<close>. \<^verbatim>\<open>open\<close>
  raises \<^verbatim>\<open>OSError\<close>: \<open>Unreadable\<close>. The bytes are not UTF-8, so that reading the
  file opened with \<^verbatim>\<open>encoding="utf-8"\<close> raises \<^verbatim>\<open>UnicodeDecodeError\<close>, a
  \<^verbatim>\<open>ValueError\<close>: \<open>Undecodable\<close>. The text is not JSON, \<^verbatim>\<open>json.load\<close> raises
  \<^verbatim>\<open>JSONDecodeError\<close>: \<open>Unparsable\<close>. Otherwise the document.
\<close>

datatype stored_file = Missing | Unreadable | Undecodable | Unparsable | Loaded json

text \<open>The strings of the default catalog, in UTF-8.\<close>

definition name_common :: string where
  \<comment> \<open>"Common"\<close>
  "name_common =
    [CHR 0xD0, CHR 0x9E, CHR 0xD0, CHR 0xB1, CHR 0xD1, CHR 0x8B, CHR 0xD1, CHR 0x87,
     CHR 0xD0, CHR 0xBD, CHR 0xD0, CHR 0xB0, CHR 0xD1, CHR 0x8F]"

definition name_rare :: string where
  \<comment> \<open>"Rare"\<close>
  "name_rare =
    [CHR 0xD0, CHR 0xA0, CHR 0xD0, CHR 0xB5, CHR 0xD0, CHR 0xB4, CHR 0xD0, CHR 0xBA,
     CHR 0xD0, CHR 0xB0, CHR 0xD1, CHR 0x8F]"

definition name_epic :: string where
  \<comment> \<open>"Epic"\<close>
  "name_epic =
    [CHR 0xD0, CHR 0xAD, CHR 0xD0, CHR 0xBF, CHR 0xD0, CHR 0xB8, CHR 0xD1, CHR 0x87,
     CHR 0xD0, CHR 0xB5, CHR 0xD1, CHR 0x81, CHR 0xD0, CHR 0xBA, CHR 0xD0, CHR 0xB0,
     CHR 0xD1, CHR 0x8F]"

definition name_legendary :: string where
  \<comment> \<open>"Legendary"\<close>
  "name_legendary =
    [CHR 0xD0, CHR 0x9B, CHR 0xD0, CHR 0xB5, CHR 0xD0, CHR 0xB3, CHR 0xD0, CHR 0xB5,
     CHR 0xD0, CHR 0xBD, CHR 0xD0, CHR 0xB4, CHR 0xD0, CHR 0xB0, CHR 0xD1, CHR 0x80,
     CHR 0xD0, CHR 0xBD, CHR 0xD0, CHR 0xB0, CHR 0xD1, CHR 0x8F]"

definition name_knife :: string where
  \<comment> \<open>"Old knife"\<close>
  "name_knife =
    [CHR 0xD0, CHR 0xA1, CHR 0xD1, CHR 0x82, CHR 0xD0, CHR 0xB0, CHR 0xD1, CHR 0x80,
     CHR 0xD1, CHR 0x8B, CHR 0xD0, CHR 0xB9, CHR 0x20, CHR 0xD0, CHR 0xBD, CHR 0xD0,
     CHR 0xBE, CHR 0xD0, CHR 0xB6]"

definition name_pistol :: string where
  \<comment> \<open>"Shining pistol"\<close>
  "name_pistol =
    [CHR 0xD0, CHR 0xA1, CHR 0xD0, CHR 0xB8, CHR 0xD1, CHR 0x8F, CHR 0xD1, CHR 0x8E,
     CHR 0xD1, CHR 0x89, CHR 0xD0, CHR 0xB8, CHR 0xD0, CHR 0xB9, CHR 0x20, CHR 0xD0,
     CHR 0xBF, CHR 0xD0, CHR 0xB8, CHR 0xD1, CHR 0x81, CHR 0xD1, CHR 0x82, CHR 0xD0,
     CHR 0xBE, CHR 0xD0, CHR 0xBB, CHR 0xD0, CHR 0xB5, CHR 0xD1, CHR 0x82]"

definition name_sword :: string where
  \<comment> \<open>"Crystal sword"\<close>
  "name_sword =
    [CHR 0xD0, CHR 0x9A, CHR 0xD1, CHR 0x80, CHR 0xD0, CHR 0xB8, CHR 0xD1, CHR 0x81,
     CHR 0xD1, CHR 0x82, CHR 0xD0, CHR 0xB0, CHR 0xD0, CHR 0xBB, CHR 0xD1, CHR 0x8C,
     CHR 0xD0, CHR 0xBD, CHR 0xD1, CHR 0x8B, CHR 0xD0, CHR 0xB9, CHR 0x20, CHR 0xD0,
     CHR 0xBC, CHR 0xD0, CHR 0xB5, CHR 0xD1, CHR 0x87]"

definition name_crown :: string where
  \<comment> \<open>"Dragon crown"\<close>
  "name_crown =
    [CHR 0xD0, CHR 0x94, CHR 0xD1, CHR 0x80, CHR 0xD0, CHR 0xB0, CHR 0xD0, CHR 0xBA,
     CHR 0xD0, CHR 0xBE, CHR 0xD0, CHR 0xBD, CHR 0xD1, CHR 0x8C, CHR 0xD1, CHR 0x8F,
     CHR 0x20, CHR 0xD0, CHR 0xBA, CHR 0xD0, CHR 0xBE, CHR 0xD1, CHR 0x80, CHR 0xD0,
     CHR 0xBE, CHR 0xD0, CHR 0xBD, CHR 0xD0, CHR 0xB0]"

definition text_simple :: string where
  \<comment> \<open>"A simple item"\<close>
  "text_simple =
    [CHR 0xD0, CHR 0x9F, CHR 0xD1, CHR 0x80, CHR 0xD0, CHR 0xBE, CHR 0xD1, CHR 0x81,
     CHR 0xD1, CHR 0x82, CHR 0xD0, CHR 0xBE, CHR 0xD0, CHR 0xB9, CHR 0x20, CHR 0xD0,
     CHR 0xBF, CHR 0xD1, CHR 0x80, CHR 0xD0, CHR 0xB5, CHR 0xD0, CHR 0xB4, CHR 0xD0,
     CHR 0xBC, CHR 0xD0, CHR 0xB5, CHR 0xD1, CHR 0x82]"

definition text_rare_find :: string where
  \<comment> \<open>"A rare find"\<close>
  "text_rare_find =
    [CHR 0xD0, CHR 0xA0, CHR 0xD0, CHR 0xB5, CHR 0xD0, CHR 0xB4, CHR 0xD0, CHR 0xBA,
     CHR 0xD0, CHR 0xB0, CHR 0xD1, CHR 0x8F, CHR 0x20, CHR 0xD0, CHR 0xBD, CHR 0xD0,
     CHR 0xB0, CHR 0xD1, CHR 0x85, CHR 0xD0, CHR 0xBE, CHR 0xD0, CHR 0xB4, CHR 0xD0,
     CHR 0xBA, CHR 0xD0, CHR 0xB0]"

definition text_valuable :: string where
  \<comment> \<open>"Very valuable"\<close>
  "text_valuable =
    [CHR 0xD0, CHR 0x9E, CHR 0xD1, CHR 0x87, CHR 0xD0, CHR 0xB5, CHR 0xD0, CHR 0xBD,
     CHR 0xD1, CHR 0x8C, CHR 0x20, CHR 0xD1, CHR 0x86, CHR 0xD0, CHR 0xB5, CHR 0xD0,
     CHR 0xBD, CHR 0xD0, CHR 0xBD, CHR 0xD1, CHR 0x8B, CHR 0xD0, CHR 0xB9]"

definition text_hardly :: string where
  \<comment> \<open>"Hardly ever drops"\<close>
  "text_hardly =
    [CHR 0xD0, CHR 0x9F, CHR 0xD0, CHR 0xBE, CHR 0xD1, CHR 0x87, CHR 0xD1, CHR 0x82,
     CHR 0xD0, CHR 0xB8, CHR 0x20, CHR 0xD0, CHR 0xBD, CHR 0xD0, CHR 0xB5, CHR 0x20,
     CHR 0xD0, CHR 0xB2, CHR 0xD1, CHR 0x8B, CHR 0xD0, CHR 0xBF, CHR 0xD0, CHR 0xB0,
     CHR 0xD0, CHR 0xB4, CHR 0xD0, CHR 0xB0, CHR 0xD0, CHR 0xB5, CHR 0xD1, CHR 0x82]"

text \<open>\<^verbatim>\<open>asdict(Rarity(...))\<close> and \<^verbatim>\<open>asdict(Item(...))\<close>.\<close>

definition rarity_dict :: "string \<Rightarrow> string \<Rightarrow> rat \<Rightarrow> rat \<Rightarrow> string \<Rightarrow> json" where
  "rarity_dict i n lo hi c =
     JObj [(''id'', JStr i), (''name'', JStr n), (''min_roll'', JNum lo),
           (''max_roll'', JNum hi), (''color'', JStr c)]"

definition item_dict :: "string \<Rightarrow> string \<Rightarrow> json \<Rightarrow> rat \<Rightarrow> string \<Rightarrow> string \<Rightarrow> json" where
  "item_dict i n r w img d =
     JObj [(''id'', JStr i), (''name'', JStr n), (''rarity_id'', r), (''weight'', JNum w),
           (''image_path'', JStr img), (''description'', JStr d)]"

text \<open>The dictionary of \<^verbatim>\<open>__init__\<close>, with JSON values.\<close>

definition init_data :: "string \<rightharpoonup> json" where
  "init_data =
     [''rarities'' \<mapsto> JArr [], ''items'' \<mapsto> JArr [], ''inventory'' \<mapsto> JObj [],
      ''history'' \<mapsto> JArr [],
      ''stats'' \<mapsto> JObj [(''total_opened'', JNum 0), (''total_spent'', JNum 0),
                          (''by_rarity'', JObj []), (''by_item'', JObj [])],
      ''settings'' \<mapsto> JObj [(''roll_min'', JNum 0), (''roll_max'', JNum 100),
                             (''open_price'', JNum 1)]]"

text \<open>\<^verbatim>\<open>not x\<close> is \<open>\<not> truthy x\<close>.\<close>

fun truthy :: "json \<Rightarrow> bool" where
  "truthy JNull = False"
| "truthy (JBool b) = b"
| "truthy (JNum n) = (n \<noteq> 0)"
| "truthy (JStr s) = (s \<noteq> [])"
| "truthy (JArr xs) = (xs \<noteq> [])"
| "truthy (JObj kvs) = (kvs \<noteq> [])"

text \<open>\<^verbatim>\<open>x[k]\<close> for the integer \<open>k\<close>, and \<^verbatim>\<open>x["key"]\<close>.\<close>

fun subscript_int :: "json \<Rightarrow> nat \<Rightarrow> py_error + json" where
  "subscript_int (JArr xs) k = (if k < length xs then Inr (xs ! k) else Inl IndexError)"
| "subscript_int (JStr s) k = (if k < length s then Inr (JStr [s ! k]) else Inl IndexError)"
| "subscript_int (JObj kvs) k = Inl KeyError"
| "subscript_int x k = Inl TypeError"

fun subscript_str :: "json \<Rightarrow> string \<Rightarrow> py_error + json" where
  "subscript_str (JObj kvs) key =
     (case map_of kvs key of None \<Rightarrow> Inl KeyError | Some v \<Rightarrow> Inr v)"
| "subscript_str x key = Inl TypeError"

text \<open>
  One element of the sequence that \<^verbatim>\<open>dict.update\<close> is given when its argument is not a
  dictionary: it has to be an iterable of length 2, and its first component a hashable
  key. A key that is not a string is stored under a key that nothing reads afterwards:
  \<open>Inr None\<close>.
\<close>

fun update_element :: "json \<Rightarrow> py_error + (string \<times> json) option" where
  "update_element (JArr [JStr key, v]) = Inr (Some (key, v))"
| "update_element (JArr [JArr key, v]) = Inl TypeError"
| "update_element (JArr [JObj key, v]) = Inl TypeError"
| "update_element (JArr [key, v]) = Inr None"
| "update_element (JArr xs) = Inl ValueError"
| "update_element (JStr [a, b]) = Inr (Some ([a], JStr [b]))"
| "update_element (JStr s) = Inl ValueError"
| "update_element (JObj [(key, v), (key', v')]) = Inr (Some (key, JStr key'))"
| "update_element (JObj kvs) = Inl ValueError"
| "update_element x = Inl TypeError"

fun update_sequence :: "(string \<rightharpoonup> json) \<Rightarrow> json list \<Rightarrow> py_error + (string \<rightharpoonup> json)" where
  "update_sequence d [] = Inr d"
| "update_sequence d (x # xs) =
     (case update_element x of
        Inl err \<Rightarrow> Inl err
      | Inr None \<Rightarrow> update_sequence d xs
      | Inr (Some (key, v)) \<Rightarrow> update_sequence (d(key \<mapsto> v)) xs)"

text \<open>\<^verbatim>\<open>d.update(loaded)\<close>.\<close>

fun dict_update :: "(string \<rightharpoonup> json) \<Rightarrow> json \<Rightarrow> py_error + (string \<rightharpoonup> json)" where
  "dict_update d (JObj kvs) = Inr (fold (\<lambda>(key, v) d. d(key \<mapsto> v)) kvs d)"
| "dict_update d (JArr xs) = update_sequence d xs"
| "dict_update d (JStr s) = (if s = [] then Inr d else Inl ValueError)"
| "dict_update d x = Inl TypeError"

text \<open>
  The \<^verbatim>\<open>try\<close> block with \<^verbatim>\<open>except (json.JSONDecodeError, OSError): pass\<close>. What
  the decoding and \<^verbatim>\<open>update\<close> raise is neither of the two.
\<close>

fun load :: "(string \<rightharpoonup> json) \<Rightarrow> stored_file \<Rightarrow> py_error + (string \<rightharpoonup> json)" where
  "load d Missing = Inr d"
| "load d Unreadable = Inr d"
| "load d Undecodable = Inl ValueError"
| "load d Unparsable = Inr d"
| "load d (Loaded doc) = dict_update d doc"

text \<open>\<^verbatim>\<open>self.data["key"]\<close>.\<close>

definition data_get :: "(string \<rightharpoonup> json) \<Rightarrow> string \<Rightarrow> py_error + json" where
  "data_get d key = (case d key of None \<Rightarrow> Inl KeyError | Some v \<Rightarrow> Inr v)"

text \<open>\<^verbatim>\<open>r[k]["id"]\<close>.\<close>

definition rarity_id_at :: "json \<Rightarrow> nat \<Rightarrow> py_error + json" where
  "rarity_id_at r k =
     (case subscript_int r k of Inl err \<Rightarrow> Inl err | Inr x \<Rightarrow> subscript_str x ''id'')"

text \<open>
  The two \<^verbatim>\<open>if not ...\<close> blocks. \<open>u\<close> gives the values of \<^verbatim>\<open>uuid.uuid4()\<close> in order;
  the four rarities take the first four when they are seeded.
\<close>

definition seed_rarities ::
  "(nat \<Rightarrow> string) \<Rightarrow> (string \<rightharpoonup> json) \<Rightarrow> py_error + (nat \<Rightarrow> string) \<times> (string \<rightharpoonup> json)" where
  "seed_rarities u d =
     (case data_get d ''rarities'' of
        Inl err \<Rightarrow> Inl err
      | Inr r \<Rightarrow>
          if \<not> truthy r
          then Inr (\<lambda>n. u (n + 4),
                    d(''rarities'' \<mapsto> JArr
                       [rarity_dict (u 0) name_common 0 60 ''#b0b0b0'',
                        rarity_dict (u 1) name_rare 60 85 ''#4f8cff'',
                        rarity_dict (u 2) name_epic 85 97 ''#bb6eff'',
                        rarity_dict (u 3) name_legendary 97 100 ''#ff9f1a'']))
          else Inr (u, d))"

definition seed_items ::
  "(nat \<Rightarrow> string) \<Rightarrow> (string \<rightharpoonup> json) \<Rightarrow> py_error + (string \<rightharpoonup> json)" where
  "seed_items u d =
     (case data_get d ''items'' of
        Inl err \<Rightarrow> Inl err
      | Inr its \<Rightarrow>
          if \<not> truthy its
          then
            (case data_get d ''rarities'' of
               Inl err \<Rightarrow> Inl err
             | Inr r \<Rightarrow>
            (case rarity_id_at r 0 of
               Inl err \<Rightarrow> Inl err
             | Inr r0 \<Rightarrow>
            (case rarity_id_at r 1 of
               Inl err \<Rightarrow> Inl err
             | Inr r1 \<Rightarrow>
            (case rarity_id_at r 2 of
               Inl err \<Rightarrow> Inl err
             | Inr r2 \<Rightarrow>
            (case rarity_id_at r 3 of
               Inl err \<Rightarrow> Inl err
             | Inr r3 \<Rightarrow>
                 Inr (d(''items'' \<mapsto> JArr
                        [item_dict (u 0) name_knife r0 10 [] text_simple,
                         item_dict (u 1) name_pistol r1 6 [] text_rare_find,
                         item_dict (u 2) name_sword r2 3 [] text_valuable,
                         item_dict (u 3) name_crown r3 1 [] text_hardly])))))))
          else Inr d)"

text \<open>
  \<^verbatim>\<open>_load_or_create_defaults\<close>, on the dictionary of \<^verbatim>\<open>__init__\<close>. \<open>Inl\<close> is the
  exception that leaves \<^verbatim>\<open>DataStore()\<close>; \<open>Inr\<close> is \<^verbatim>\<open>self.data\<close> when the call returns
  (the final \<^verbatim>\<open>save()\<close> writes it).
\<close>

definition load_or_create_defaults ::
  "(nat \<Rightarrow> string) \<Rightarrow> stored_file \<Rightarrow> py_error + (string \<rightharpoonup> json)" where
  "load_or_create_defaults u f =
     (case load init_data f of
        Inl err \<Rightarrow> Inl err
      | Inr d \<Rightarrow>
          (case seed_rarities u d of
             Inl err \<Rightarrow> Inl err
           | Inr (u', d') \<Rightarrow> seed_items u' d'))"

text \<open>
  A document as \<^verbatim>\<open>save()\<close> writes it after the four default items and three of the
  four default rarities have been deleted: one rarity, no item.
\<close>

definition uuids :: "nat \<Rightarrow> string" where
  "uuids n = ''uuid-'' @ replicate n (CHR ''x'')"

definition one_rarity_left :: json where
  "one_rarity_left =
     JObj [(''rarities'', JArr [rarity_dict ''uuid-'' name_common 0 60 ''#b0b0b0'']),
           (''items'', JArr []),
           (''inventory'', JObj []),
           (''history'', JArr []),
           (''stats'', JObj [(''total_opened'', JNum 0), (''total_spent'', JNum 0),
                             (''by_rarity'', JObj []), (''by_item'', JObj [])]),
           (''settings'', JObj [(''roll_min'', JNum 0), (''roll_max'', JNum 100),
                                (''open_price'', JNum 1)])]"

section \<open>Stores and requests of the examples, and auxiliary predicates\<close>

subsection \<open>A small catalog\<close>

text \<open>
  Two rarities that share the boundary 60, stored with the higher band first, and one
  item in each.
\<close>

definition env0 :: env where
  "env0 = \<lparr> new_id = ''new'', hist_id = ''h'', now = 1700000000, rand = (\<lambda>n. 1 / 2) \<rparr>"

definition common :: rarity where
  "common = \<lparr> rid = ''r1'', rname = ''Common'', min_roll = 0, max_roll = 60,
              color = ''#b0b0b0'' \<rparr>"

definition rare :: rarity where
  "rare = \<lparr> rid = ''r2'', rname = ''Rare'', min_roll = 60, max_roll = 85,
            color = ''#4f8cff'' \<rparr>"

definition knife :: item where
  "knife = \<lparr> iid = ''i1'', iname = ''Old knife'', rarity_id = ''r1'', weight = 10,
             image_path = [], description = [] \<rparr>"

definition pistol :: item where
  "pistol = \<lparr> iid = ''i2'', iname = ''Pistol'', rarity_id = ''r2'', weight = 6,
              image_path = [], description = [] \<rparr>"

definition shop :: store where
  "shop = initial_data \<lparr> rarities := [rare, common], items := [knife, pistol] \<rparr>"

text \<open>A store whose settings do not pass the validator.\<close>

definition broken :: store where
  "broken = shop \<lparr> settings := \<lparr> roll_min = 5, roll_max = 5, open_price = 1 \<rparr> \<rparr>"

text \<open>The small catalog with two knives in the inventory.\<close>

definition stocked :: store where
  "stocked = shop \<lparr> inventory := [''i1'' \<mapsto> 2] \<rparr>"

text \<open>The small catalog without the knife: no item references the rarity \<open>r1\<close>.\<close>

definition pistol_only :: store where
  "pistol_only = shop \<lparr> items := [pistol] \<rparr>"

subsection \<open>Steps of the history\<close>

text \<open>What a call can do to the history: nothing, clear it, or put one entry at its head.\<close>

definition history_step :: "env \<Rightarrow> entry list \<Rightarrow> entry list \<Rightarrow> bool" where
  "history_step e old new \<longleftrightarrow>
     new = old \<or> new = [] \<or>
     (\<exists>act p. new = take 500 (\<lparr> eid = hist_id e, timestamp = now e, action = act,
                                 payload = p \<rparr> # old))"

text \<open>A store whose history is full: 500 entries.\<close>

definition old_entry :: entry where
  "old_entry = \<lparr> eid = ''old'', timestamp = 1600000000, action = ''reset_stats'',
                 payload = PEmpty \<rparr>"

definition full :: store where
  "full = shop \<lparr> history := replicate 500 old_entry \<rparr>"

text \<open>One entry appended by a call with the environment \<open>e\<close>.\<close>

definition appended :: "env \<Rightarrow> entry list \<Rightarrow> entry list \<Rightarrow> bool" where
  "appended e old new \<longleftrightarrow>
     (\<exists>act p. new = \<lparr> eid = hist_id e, timestamp = now e, action = act, payload = p \<rparr> #
                      take 499 old)"

subsection \<open>Weights in requests\<close>

text \<open>A request that carries no negative weight.\<close>

fun weight_ok :: "request \<Rightarrow> bool" where
  "weight_ok (AddItem p) = (0 \<le> dict_get (ip_weight p) 0)"
| "weight_ok (UpdateItem the_id p) = (0 \<le> dict_get (ip_weight p) 0)"
| "weight_ok q = True"

text \<open>A payload with a negative weight, as the form of the user interface can send it.\<close>

definition cursed :: item_payload where
  "cursed = \<lparr> ip_name = Some ''Cursed'', ip_rarity_id = Some ''r1'', ip_weight = Some (- 5),
              ip_image_path = None, ip_description = None \<rparr>"

definition blessed :: item_payload where
  "blessed = \<lparr> ip_name = Some ''Blessed'', ip_rarity_id = Some ''r1'', ip_weight = Some 0,
               ip_image_path = None, ip_description = None \<rparr>"

subsection \<open>Requests that the validator rejects\<close>

definition too_high :: settings_payload where
  "too_high = \<lparr> sp_roll_min = Some 200, sp_roll_max = None, sp_open_price = None \<rparr>"

definition inverted :: rarity_payload where
  "inverted = \<lparr> p_name = None, p_min_roll = Some 70, p_max_roll = None, p_color = None \<rparr>"

definition overlapping :: rarity_payload where
  "overlapping = \<lparr> p_name = Some ''Odd'', p_min_roll = Some 50, p_max_roll = Some 70,
                   p_color = None \<rparr>"

section \<open>The rarity lookup\<close>

lemma roll_rarity_None:
  "roll_rarity rs roll = None \<longleftrightarrow>
     (\<forall>r \<in> set rs. \<not> (min_roll r \<le> roll \<and> roll \<le> max_roll r))"
  by (induction rs) auto

lemma roll_rarity_Some:
  "roll_rarity rs roll = Some r \<longleftrightarrow>
     (\<exists>k < length rs. rs ! k = r \<and> min_roll r \<le> roll \<and> roll \<le> max_roll r \<and>
        (\<forall>j < k. \<not> (min_roll (rs ! j) \<le> roll \<and> roll \<le> max_roll (rs ! j))))"
proof (induction rs)
  case Nil
  show ?case by simp
next
  case (Cons a rs)
  show ?case
  proof (cases "min_roll a \<le> roll \<and> roll \<le> max_roll a")
    case True
    have "(\<exists>k < length (a # rs). (a # rs) ! k = r \<and> min_roll r \<le> roll \<and> roll \<le> max_roll r \<and>
            (\<forall>j < k. \<not> (min_roll ((a # rs) ! j) \<le> roll \<and> roll \<le> max_roll ((a # rs) ! j))))
          \<longleftrightarrow> a = r"
    proof
      assume "\<exists>k < length (a # rs). (a # rs) ! k = r \<and> min_roll r \<le> roll \<and> roll \<le> max_roll r \<and>
            (\<forall>j < k. \<not> (min_roll ((a # rs) ! j) \<le> roll \<and> roll \<le> max_roll ((a # rs) ! j)))"
      then obtain k where k: "(a # rs) ! k = r"
        and first: "\<forall>j < k. \<not> (min_roll ((a # rs) ! j) \<le> roll \<and> roll \<le> max_roll ((a # rs) ! j))"
        by blast
      have "k = 0"
      proof (rule ccontr)
        assume "k \<noteq> 0"
        then have "0 < k" by simp
        with first have "\<not> (min_roll ((a # rs) ! 0) \<le> roll \<and> roll \<le> max_roll ((a # rs) ! 0))"
          by blast
        with True show False by simp
      qed
      with k show "a = r" by simp
    next
      assume "a = r"
      with True have "(a # rs) ! 0 = r \<and> min_roll r \<le> roll \<and> roll \<le> max_roll r \<and>
            (\<forall>j < (0::nat). \<not> (min_roll ((a # rs) ! j) \<le> roll \<and> roll \<le> max_roll ((a # rs) ! j)))"
        by simp
      then show "\<exists>k < length (a # rs). (a # rs) ! k = r \<and> min_roll r \<le> roll \<and> roll \<le> max_roll r \<and>
            (\<forall>j < k. \<not> (min_roll ((a # rs) ! j) \<le> roll \<and> roll \<le> max_roll ((a # rs) ! j)))"
        by (intro exI [of _ 0]) simp
    qed
    then have first_is: "(\<exists>k < length (a # rs). (a # rs) ! k = r \<and> min_roll r \<le> roll \<and> roll \<le> max_roll r \<and>
            (\<forall>j < k. \<not> (min_roll ((a # rs) ! j) \<le> roll \<and> roll \<le> max_roll ((a # rs) ! j))))
          \<longleftrightarrow> a = r" .
    have step: "roll_rarity (a # rs) roll = Some a"
      using True by simp
    show ?thesis by (simp only: step first_is option.inject)
  next
    case False
    have "(\<exists>k < length (a # rs). (a # rs) ! k = r \<and> min_roll r \<le> roll \<and> roll \<le> max_roll r \<and>
            (\<forall>j < k. \<not> (min_roll ((a # rs) ! j) \<le> roll \<and> roll \<le> max_roll ((a # rs) ! j))))
          \<longleftrightarrow>
          (\<exists>k < length rs. rs ! k = r \<and> min_roll r \<le> roll \<and> roll \<le> max_roll r \<and>
            (\<forall>j < k. \<not> (min_roll (rs ! j) \<le> roll \<and> roll \<le> max_roll (rs ! j))))"
      (is "?L \<longleftrightarrow> ?R")
    proof
      assume ?L
      then obtain k where k: "k < length (a # rs)" "(a # rs) ! k = r"
        "min_roll r \<le> roll \<and> roll \<le> max_roll r"
        and first: "\<forall>j < k. \<not> (min_roll ((a # rs) ! j) \<le> roll \<and> roll \<le> max_roll ((a # rs) ! j))"
        by blast
      from k False have "k \<noteq> 0" by (cases k) auto
      then obtain k' where k': "k = Suc k'" by (cases k) auto
      have "\<forall>j < k'. \<not> (min_roll (rs ! j) \<le> roll \<and> roll \<le> max_roll (rs ! j))"
      proof (intro allI impI)
        fix j assume "j < k'"
        then have "Suc j < k" using k' by simp
        with first have "\<not> (min_roll ((a # rs) ! Suc j) \<le> roll \<and> roll \<le> max_roll ((a # rs) ! Suc j))"
          by blast
        then show "\<not> (min_roll (rs ! j) \<le> roll \<and> roll \<le> max_roll (rs ! j))" by simp
      qed
      with k k' show ?R by (intro exI [of _ k']) simp
    next
      assume ?R
      then obtain k where k: "k < length rs" "rs ! k = r"
        "min_roll r \<le> roll \<and> roll \<le> max_roll r"
        and first: "\<forall>j < k. \<not> (min_roll (rs ! j) \<le> roll \<and> roll \<le> max_roll (rs ! j))"
        by blast
      have "\<forall>j < Suc k. \<not> (min_roll ((a # rs) ! j) \<le> roll \<and> roll \<le> max_roll ((a # rs) ! j))"
      proof (intro allI impI)
        fix j assume j: "j < Suc k"
        show "\<not> (min_roll ((a # rs) ! j) \<le> roll \<and> roll \<le> max_roll ((a # rs) ! j))"
        proof (cases j)
          case 0
          with False show ?thesis by simp
        next
          case (Suc j')
          with j first show ?thesis by simp
        qed
      qed
      with k show ?L by (intro exI [of _ "Suc k"]) simp
    qed
    then have LR: "?L \<longleftrightarrow> ?R" .
    have step: "roll_rarity (a # rs) roll = roll_rarity rs roll"
      by (simp add: False)
    show ?thesis by (simp only: step Cons.IH LR)
  qed
qed


text \<open>
  Claim C6. For every roll, the rarity lookup of the draw engine returns the first
  rarity, in the order in which the catalog stores them, whose closed interval from
  \<open>min_roll\<close> to \<open>max_roll\<close> contains the roll, both ends included; and when no
  interval contains the roll it returns no rarity (\<open>None\<close>), not an error.
\<close>

theorem roll_rarity_first_match:
  "(roll_rarity rs roll = None \<longleftrightarrow>
      (\<forall>r \<in> set rs. \<not> (min_roll r \<le> roll \<and> roll \<le> max_roll r))) \<and>
   (roll_rarity rs roll = Some r \<longleftrightarrow>
      (\<exists>k < length rs. rs ! k = r \<and> min_roll r \<le> roll \<and> roll \<le> max_roll r \<and>
         (\<forall>j < k. \<not> (min_roll (rs ! j) \<le> roll \<and> roll \<le> max_roll (rs ! j)))))"
  using roll_rarity_None [of rs roll] roll_rarity_Some [of rs roll r] by (rule conjI)

text \<open>
  The roll 60 lies in both bands; the catalog stores \<open>rare\<close> before \<open>common\<close>, and
  \<open>rare\<close> is returned, though \<open>common\<close> comes first when the bands are sorted. The
  roll 90 lies in neither.
\<close>

theorem roll_rarity_first_match_witness:
  "roll_rarity [rare, common] 60 = Some rare \<and>
   (\<exists>k < length [rare, common]. [rare, common] ! k = rare \<and>
      min_roll rare \<le> 60 \<and> 60 \<le> max_roll rare \<and>
      (\<forall>j < k. \<not> (min_roll ([rare, common] ! j) \<le> 60 \<and>
                    60 \<le> max_roll ([rare, common] ! j)))) \<and>
   min_roll common \<le> 60 \<and> 60 \<le> max_roll common \<and>
   roll_rarity [rare, common] 90 = None \<and>
   \<not> (min_roll rare \<le> 90 \<and> 90 \<le> max_roll rare) \<and>
   \<not> (min_roll common \<le> 90 \<and> 90 \<le> max_roll common)"
proof -
  have a: "roll_rarity [rare, common] 60 = Some rare"
    by (simp add: rare_def common_def)
  have b: "roll_rarity [rare, common] 90 = None"
    by (simp add: rare_def common_def)
  have c: "min_roll common \<le> 60 \<and> 60 \<le> max_roll common"
    by (simp add: common_def)
  from a b c roll_rarity_first_match [of "[rare, common]" 60 rare]
    roll_rarity_first_match [of "[rare, common]" 90 rare]
  show ?thesis by simp
qed


section \<open>Opening cases: the number of draws\<close>

lemma draws_funpow: "draws k st = (draw ^^ k) st"
  by (induction k arbitrary: st) (simp_all add: funpow_swap1)

text \<open>
  Claim C10. For every integer \<open>n\<close>, \<open>open_case\<close> clamps \<open>n\<close> into the range from 1 to
  100: a value below 1 becomes 1, a value above 100 becomes 100, a value in the range is
  kept. The call behaves as the call with the clamped value; it is rejected exactly when
  the validator rejects the store, whatever \<open>n\<close> is, and it never raises; and when the
  store is valid, the loop body \<open>draw\<close> runs exactly the clamped number of times.
\<close>

theorem open_case_clamps:
  "1 \<le> clamp_times n \<and> clamp_times n \<le> 100 \<and>
   (n < 1 \<longrightarrow> clamp_times n = 1) \<and>
   (100 < n \<longrightarrow> clamp_times n = 100) \<and>
   (1 \<le> n \<and> n \<le> 100 \<longrightarrow> clamp_times n = n) \<and>
   open_case e n s = open_case e (clamp_times n) s \<and>
   (fst (open_case e n s) = Fail m \<longleftrightarrow> validate_rarity_ranges s = Some m) \<and>
   fst (open_case e n s) \<noteq> Raised x \<and>
   (validate_rarity_ranges s = None \<longrightarrow>
      (\<exists>g s1 result.
         (draw ^^ nat (clamp_times n)) (rand e, s, []) = (g, s1, result) \<and>
         open_case e n s =
           (OkResults result,
            append_history e ''open_case''
              (POpenCase (clamp_times n) (take 10 result) (length result)) s1)))"
proof -
  have idem: "clamp_times (clamp_times n) = clamp_times n"
    by (simp add: clamp_times_def)
  have same: "open_case e n s = open_case e (clamp_times n) s"
    by (simp add: open_case_def idem)
  have rejected: "fst (open_case e n s) = Fail m \<longleftrightarrow> validate_rarity_ranges s = Some m"
    by (cases "validate_rarity_ranges s")
       (auto simp: open_case_def Let_def split: prod.splits)
  have no_raise: "fst (open_case e n s) \<noteq> Raised x"
    by (cases "validate_rarity_ranges s")
       (auto simp: open_case_def Let_def split: prod.splits)
  have runs: "validate_rarity_ranges s = None \<longrightarrow>
      (\<exists>g s1 result.
         (draw ^^ nat (clamp_times n)) (rand e, s, []) = (g, s1, result) \<and>
         open_case e n s =
           (OkResults result,
            append_history e ''open_case''
              (POpenCase (clamp_times n) (take 10 result) (length result)) s1))"
  proof
    assume v: "validate_rarity_ranges s = None"
    obtain g s1 result where d: "draws (nat (clamp_times n)) (rand e, s, []) = (g, s1, result)"
      by (cases "draws (nat (clamp_times n)) (rand e, s, [])") auto
    then have "(draw ^^ nat (clamp_times n)) (rand e, s, []) = (g, s1, result)"
      by (simp add: draws_funpow)
    moreover have "open_case e n s =
           (OkResults result,
            append_history e ''open_case''
              (POpenCase (clamp_times n) (take 10 result) (length result)) s1)"
      by (simp add: open_case_def Let_def v d)
    ultimately show "\<exists>g s1 result.
         (draw ^^ nat (clamp_times n)) (rand e, s, []) = (g, s1, result) \<and>
         open_case e n s =
           (OkResults result,
            append_history e ''open_case''
              (POpenCase (clamp_times n) (take 10 result) (length result)) s1)"
      by blast
  qed
  have bounds: "1 \<le> clamp_times n \<and> clamp_times n \<le> 100 \<and>
     (n < 1 \<longrightarrow> clamp_times n = 1) \<and> (100 < n \<longrightarrow> clamp_times n = 100) \<and>
     (1 \<le> n \<and> n \<le> 100 \<longrightarrow> clamp_times n = n)"
    by (simp add: clamp_times_def)
  from bounds same rejected no_raise runs show ?thesis by blast
qed

lemma shop_valid: "validate_rarity_ranges shop = None"
  by (simp add: validate_rarity_ranges_def shop_def initial_data_def rare_def common_def)

lemma broken_invalid: "validate_rarity_ranges broken = Some RollMinNotBelowRollMax"
  by (simp add: validate_rarity_ranges_def broken_def)

theorem open_case_clamps_witness:
  "clamp_times 250 = 100 \<and> clamp_times (- 3) = 1 \<and> clamp_times 7 = 7 \<and>
   validate_rarity_ranges shop = None \<and>
   (\<exists>g s1 result.
      (draw ^^ 100) (rand env0, shop, []) = (g, s1, result) \<and>
      open_case env0 250 shop =
        (OkResults result,
         append_history env0 ''open_case''
           (POpenCase 100 (take 10 result) (length result)) s1)) \<and>
   validate_rarity_ranges broken = Some RollMinNotBelowRollMax \<and>
   fst (open_case env0 250 broken) = Fail RollMinNotBelowRollMax"
proof -
  have high: "clamp_times 250 = 100"
    using open_case_clamps [of 250 env0 shop RollMinNotBelowRollMax KeyError] by simp
  have low: "clamp_times (- 3) = 1"
    using open_case_clamps [of "- 3" env0 shop RollMinNotBelowRollMax KeyError] by simp
  have mid: "clamp_times 7 = 7"
    using open_case_clamps [of 7 env0 shop RollMinNotBelowRollMax KeyError] by simp
  have runs: "\<exists>g s1 result.
      (draw ^^ 100) (rand env0, shop, []) = (g, s1, result) \<and>
      open_case env0 250 shop =
        (OkResults result,
         append_history env0 ''open_case''
           (POpenCase 100 (take 10 result) (length result)) s1)"
  proof -
    have "\<exists>g s1 result.
      (draw ^^ nat (clamp_times 250)) (rand env0, shop, []) = (g, s1, result) \<and>
      open_case env0 250 shop =
        (OkResults result,
         append_history env0 ''open_case''
           (POpenCase (clamp_times 250) (take 10 result) (length result)) s1)"
      using open_case_clamps [of 250 env0 shop RollMinNotBelowRollMax KeyError] shop_valid
      by blast
    then show ?thesis by (simp add: high)
  qed
  have rejected: "fst (open_case env0 250 broken) = Fail RollMinNotBelowRollMax"
    using open_case_clamps [of 250 env0 broken RollMinNotBelowRollMax KeyError] broken_invalid
    by blast
  from high low mid runs rejected shop_valid broken_invalid show ?thesis by blast
qed


section \<open>Adjusting the inventory\<close>

lemma item_map_None: "item_map s k = None \<longleftrightarrow> k \<notin> iid ` set (items s)"
  by (simp add: item_map_def map_of_eq_None_iff image_image)

text \<open>
  Claim C7. For every item id of the catalog and every integer \<open>delta\<close>,
  \<open>adjust_inventory\<close> fails exactly when the current quantity (0 for an id without an
  entry) plus \<open>delta\<close> is negative, the failure carries the message of an insufficient
  quantity, and it leaves the inventory, as the whole store, unchanged. When it does not
  fail it answers \<open>Ok\<close> and stores the new quantity, except that a new quantity of 0
  removes the entry from the inventory.
\<close>

theorem adjust_inventory_negative_iff:
  assumes "the_id \<in> iid ` set (items s)"
  shows
  "((\<exists>m. fst (adjust_inventory e the_id delta s) = Fail m) \<longleftrightarrow>
      dict_get (inventory s the_id) 0 + delta < 0) \<and>
   (dict_get (inventory s the_id) 0 + delta < 0 \<longrightarrow>
      adjust_inventory e the_id delta s = (Fail NotEnoughItems, s)) \<and>
   (0 \<le> dict_get (inventory s the_id) 0 + delta \<longrightarrow>
      fst (adjust_inventory e the_id delta s) = Ok \<and>
      (\<forall>k. k \<noteq> the_id \<longrightarrow>
         inventory (snd (adjust_inventory e the_id delta s)) k = inventory s k)) \<and>
   (0 < dict_get (inventory s the_id) 0 + delta \<longrightarrow>
      inventory (snd (adjust_inventory e the_id delta s)) the_id =
        Some (dict_get (inventory s the_id) 0 + delta)) \<and>
   (dict_get (inventory s the_id) 0 + delta = 0 \<longrightarrow>
      inventory (snd (adjust_inventory e the_id delta s)) the_id = None \<and>
      the_id \<notin> dom (inventory (snd (adjust_inventory e the_id delta s))))"
proof -
  from assms have present: "item_map s the_id \<noteq> None"
    by (simp add: item_map_None)
  show ?thesis
    using present
    by (auto simp: adjust_inventory_def Let_def append_history_def)
qed

text \<open>
  The store \<open>stocked\<close> holds two knives. Taking three fails and changes nothing, taking
  two removes the entry, taking one leaves one.
\<close>

theorem adjust_inventory_negative_iff_witness:
  "''i1'' \<in> iid ` set (items stocked) \<and>
   dict_get (inventory stocked ''i1'') 0 = 2 \<and>
   adjust_inventory env0 ''i1'' (- 3) stocked = (Fail NotEnoughItems, stocked) \<and>
   fst (adjust_inventory env0 ''i1'' (- 2) stocked) = Ok \<and>
   inventory (snd (adjust_inventory env0 ''i1'' (- 2) stocked)) ''i1'' = None \<and>
   fst (adjust_inventory env0 ''i1'' (- 1) stocked) = Ok \<and>
   inventory (snd (adjust_inventory env0 ''i1'' (- 1) stocked)) ''i1'' = Some 1"
proof -
  have present: "''i1'' \<in> iid ` set (items stocked)"
    by (simp add: stocked_def shop_def knife_def)
  have cur: "dict_get (inventory stocked ''i1'') 0 = 2"
    by (simp add: stocked_def dict_get_def)
  show ?thesis
    using adjust_inventory_negative_iff [OF present, of env0 "- 3"]
      adjust_inventory_negative_iff [OF present, of env0 "- 2"]
      adjust_inventory_negative_iff [OF present, of env0 "- 1"]
      present
    by (simp add: cur)
qed


section \<open>Deleting a rarity\<close>

lemma filter_drops_member:
  "x \<in> set xs \<Longrightarrow> \<not> P x \<Longrightarrow> length (filter P xs) < length xs"
proof (induction xs)
  case Nil
  then show ?case by simp
next
  case (Cons a xs)
  have le: "length (filter P xs) \<le> length xs" by (rule length_filter_le)
  show ?case
  proof (cases "a = x")
    case True
    with Cons.prems le show ?thesis by (simp add: less_Suc_eq_le)
  next
    case False
    with Cons have "length (filter P xs) < length xs" by simp
    then show ?thesis by simp
  qed
qed

lemma filter_unique_id:
  assumes "distinct (map f xs)" and "k \<in> f ` set xs"
  shows "\<exists>pre x post. xs = pre @ x # post \<and> f x = k \<and>
           filter (\<lambda>y. f y \<noteq> k) xs = pre @ post"
proof -
  from assms(2) obtain x where x: "x \<in> set xs" "f x = k" by auto
  then obtain pre post where split: "xs = pre @ x # post"
    by (auto dest: split_list)
  from assms(1) split have "f x \<notin> f ` set pre" and "f x \<notin> f ` set post"
    by auto
  with x(2) have "\<forall>y \<in> set pre. f y \<noteq> k" and "\<forall>y \<in> set post. f y \<noteq> k"
    by (force simp: image_iff)+
  then have "filter (\<lambda>y. f y \<noteq> k) pre = pre" and "filter (\<lambda>y. f y \<noteq> k) post = post"
    by (simp_all add: filter_id_conv)
  with split x(2) have "filter (\<lambda>y. f y \<noteq> k) xs = pre @ post"
    by simp
  with split x(2) show ?thesis by blast
qed

lemma delete_rarity_referenced:
  "\<exists>i \<in> set (items s). rarity_id i = the_id \<Longrightarrow>
     delete_rarity e the_id s = (Fail RarityHasItems, s)"
  by (simp add: delete_rarity_def list_ex_iff)

lemma delete_rarity_free:
  assumes "the_id \<in> rid ` set (rarities s)"
    and "\<not> (\<exists>i \<in> set (items s). rarity_id i = the_id)"
  shows "delete_rarity e the_id s =
     (Ok, append_history e ''delete_rarity'' (PRarityId the_id)
            (s\<lparr> rarities := filter (\<lambda>r. rid r \<noteq> the_id) (rarities s) \<rparr>))"
proof -
  from assms(1) obtain r where "r \<in> set (rarities s)" "\<not> rid r \<noteq> the_id" by auto
  then have "length (filter (\<lambda>r. rid r \<noteq> the_id) (rarities s)) < length (rarities s)"
    by (rule filter_drops_member)
  then have "length (filter (\<lambda>r. rid r \<noteq> the_id) (rarities s)) \<noteq> length (rarities s)"
    by simp
  with assms(2) show ?thesis
    by (simp add: delete_rarity_def list_ex_iff Let_def)
qed

text \<open>
  Claim C8. For every rarity id of the catalog, \<open>delete_rarity\<close> fails exactly when at
  least one item of the catalog references the rarity; the failure is the
  referential-integrity message and the store stays as it was. Otherwise the call
  answers \<open>Ok\<close>, the catalog keeps, in their order, the rarities with another id and
  nothing else changes but the history, which gets one entry at its head; with ids that
  are unique, as uuid4 makes them, exactly one rarity leaves the list.
\<close>

theorem delete_rarity_referential:
  assumes "the_id \<in> rid ` set (rarities s)"
  shows
  "((\<exists>m. fst (delete_rarity e the_id s) = Fail m) \<longleftrightarrow>
      (\<exists>i \<in> set (items s). rarity_id i = the_id)) \<and>
   ((\<exists>i \<in> set (items s). rarity_id i = the_id) \<longrightarrow>
      delete_rarity e the_id s = (Fail RarityHasItems, s)) \<and>
   (\<not> (\<exists>i \<in> set (items s). rarity_id i = the_id) \<longrightarrow>
      fst (delete_rarity e the_id s) = Ok \<and>
      rarities (snd (delete_rarity e the_id s)) =
        filter (\<lambda>r. rid r \<noteq> the_id) (rarities s) \<and>
      history (snd (delete_rarity e the_id s)) =
        take 500 (\<lparr> eid = hist_id e, timestamp = now e, action = ''delete_rarity'',
                     payload = PRarityId the_id \<rparr> # history s) \<and>
      items (snd (delete_rarity e the_id s)) = items s \<and>
      inventory (snd (delete_rarity e the_id s)) = inventory s \<and>
      stats (snd (delete_rarity e the_id s)) = stats s \<and>
      settings (snd (delete_rarity e the_id s)) = settings s \<and>
      (distinct (map rid (rarities s)) \<longrightarrow>
         (\<exists>pre r post. rarities s = pre @ r # post \<and> rid r = the_id \<and>
            rarities (snd (delete_rarity e the_id s)) = pre @ post)))"
proof (cases "\<exists>i \<in> set (items s). rarity_id i = the_id")
  case True
  then have "delete_rarity e the_id s = (Fail RarityHasItems, s)"
    by (rule delete_rarity_referenced)
  with True show ?thesis by simp
next
  case False
  with assms have run: "delete_rarity e the_id s =
     (Ok, append_history e ''delete_rarity'' (PRarityId the_id)
            (s\<lparr> rarities := filter (\<lambda>r. rid r \<noteq> the_id) (rarities s) \<rparr>))"
    by (rule delete_rarity_free)
  have one: "distinct (map rid (rarities s)) \<longrightarrow>
         (\<exists>pre r post. rarities s = pre @ r # post \<and> rid r = the_id \<and>
            filter (\<lambda>r. rid r \<noteq> the_id) (rarities s) = pre @ post)"
    using filter_unique_id [of rid "rarities s" the_id] assms by blast
  from False one show ?thesis
    by (simp add: run append_history_def)
qed

text \<open>
  In \<open>shop\<close> the knife references the rarity \<open>r1\<close>. In \<open>pistol_only\<close>, without
  the knife, the rarity can be deleted, and the catalog keeps \<open>rare\<close>.
\<close>

theorem delete_rarity_referential_witness:
  "''r1'' \<in> rid ` set (rarities shop) \<and>
   delete_rarity env0 ''r1'' shop = (Fail RarityHasItems, shop) \<and>
   ''r1'' \<in> rid ` set (rarities pistol_only) \<and>
   distinct (map rid (rarities pistol_only)) \<and>
   fst (delete_rarity env0 ''r1'' pistol_only) = Ok \<and>
   rarities (snd (delete_rarity env0 ''r1'' pistol_only)) = [rare] \<and>
   length (history (snd (delete_rarity env0 ''r1'' pistol_only))) = 1"
proof -
  have present: "''r1'' \<in> rid ` set (rarities shop)"
    by (simp add: shop_def common_def)
  have present': "''r1'' \<in> rid ` set (rarities pistol_only)"
    by (simp add: pistol_only_def shop_def common_def)
  have uniq: "distinct (map rid (rarities pistol_only))"
    by (simp add: pistol_only_def shop_def common_def rare_def)
  have refd: "\<exists>i \<in> set (items shop). rarity_id i = ''r1''"
    by (simp add: shop_def knife_def)
  have free: "\<not> (\<exists>i \<in> set (items pistol_only). rarity_id i = ''r1'')"
    by (simp add: pistol_only_def pistol_def)
  have kept: "filter (\<lambda>r. rid r \<noteq> ''r1'') (rarities pistol_only) = [rare]"
    by (simp add: pistol_only_def shop_def common_def rare_def)
  have empty: "history pistol_only = []"
    by (simp add: pistol_only_def shop_def initial_data_def)
  from delete_rarity_referential [OF present, of env0] refd
  have a: "delete_rarity env0 ''r1'' shop = (Fail RarityHasItems, shop)"
    by blast
  from delete_rarity_referential [OF present', of env0] free
  have b: "fst (delete_rarity env0 ''r1'' pistol_only) = Ok \<and>
      rarities (snd (delete_rarity env0 ''r1'' pistol_only)) =
        filter (\<lambda>r. rid r \<noteq> ''r1'') (rarities pistol_only) \<and>
      history (snd (delete_rarity env0 ''r1'' pistol_only)) =
        take 500 (\<lparr> eid = hist_id env0, timestamp = now env0, action = ''delete_rarity'',
                     payload = PRarityId ''r1'' \<rparr> # history pistol_only)"
    by blast
  from a b present present' uniq show ?thesis
    by (simp add: kept empty)
qed


section \<open>The bookkeeping of a draw\<close>

lemma walk_member: "walk point current fallback xs \<in> insert fallback (set xs)"
  by (induction xs arbitrary: current fallback) auto

lemma pick_item_by_rarity_None:
  "fst (pick_item_by_rarity its r g) = None \<longleftrightarrow> candidates its r = []"
  by (cases "candidates its r")
     (simp_all add: pick_item_by_rarity_def Let_def split: prod.splits)

lemma pick_item_by_rarity_Some:
  assumes "pick_item_by_rarity its r g = (Some i, g')"
  shows "i \<in> set (candidates its r)"
proof (cases "candidates its r")
  case Nil
  with assms show ?thesis by (simp add: pick_item_by_rarity_def)
next
  case (Cons c cs)
  with assms obtain point where "i = walk point 0 (last (c # cs)) (c # cs)"
    by (auto simp: pick_item_by_rarity_def Let_def split: prod.splits)
  moreover have "last (c # cs) \<in> set (c # cs)"
    by (rule last_in_set) simp
  ultimately have "i \<in> set (c # cs)"
    using walk_member [of point 0 "last (c # cs)" "c # cs"] by auto
  with Cons show ?thesis by simp
qed

lemma draw_cases:
  "draw (g, s, result) =
     (case roll_rarity (rarities s)
             (roll_min (settings s) + (roll_max (settings s) - roll_min (settings s)) * g 0) of
        None \<Rightarrow> (\<lambda>n. g (Suc n), s, result)
      | Some r \<Rightarrow>
          (case pick_item_by_rarity (items s) (rid r) (\<lambda>n. g (Suc n)) of
             (None, g2) \<Rightarrow> (g2, s, result)
           | (Some i, g2) \<Rightarrow>
               (g2, record_draw r i s,
                result @
                [\<lparr> dr_roll = round3 (roll_min (settings s) +
                       (roll_max (settings s) - roll_min (settings s)) * g 0),
                    dr_rarity = r, dr_item = i \<rparr>])))"
  by (simp add: draw_def uniform_def)

text \<open>
  Claim C2. One iteration of the loop of \<open>open_case\<close> either appends one result to the
  list or leaves the list as it is. It appends one exactly when the roll matches a
  rarity and that rarity has an item of positive weight. When it appends the result
  \<open>d\<close>, the inventory count of the drawn item (0 when absent) goes up by 1 and no other
  count changes, \<open>total_opened\<close> goes up by 1, \<open>total_spent\<close> by \<open>open_price\<close>, the
  \<open>by_rarity\<close> count of the drawn rarity by 1 and the \<open>by_item\<close> count of the drawn item
  by 1. When it appends nothing, the store is unchanged.
\<close>

theorem draw_bookkeeping:
  assumes "draw (g, s, result) = (g', s', result')"
  shows
  "(result' = result \<or> (\<exists>d. result' = result @ [d])) \<and>
   (result' \<noteq> result \<longleftrightarrow>
      (\<exists>r. roll_rarity (rarities s)
              (roll_min (settings s) +
               (roll_max (settings s) - roll_min (settings s)) * g 0) = Some r \<and>
           candidates (items s) (rid r) \<noteq> [])) \<and>
   (result' = result \<longrightarrow> s' = s) \<and>
   (\<forall>d. result' = result @ [d] \<longrightarrow>
      roll_rarity (rarities s)
        (roll_min (settings s) +
         (roll_max (settings s) - roll_min (settings s)) * g 0) = Some (dr_rarity d) \<and>
      dr_item d \<in> set (candidates (items s) (rid (dr_rarity d))) \<and>
      inventory s' =
        (inventory s)(iid (dr_item d) \<mapsto> dict_get (inventory s (iid (dr_item d))) 0 + 1) \<and>
      total_opened (stats s') = total_opened (stats s) + 1 \<and>
      total_spent (stats s') = total_spent (stats s) + open_price (settings s) \<and>
      by_rarity (stats s') =
        (by_rarity (stats s))
          (rid (dr_rarity d) \<mapsto> dict_get (by_rarity (stats s) (rid (dr_rarity d))) 0 + 1) \<and>
      by_item (stats s') =
        (by_item (stats s))
          (iid (dr_item d) \<mapsto> dict_get (by_item (stats s) (iid (dr_item d))) 0 + 1) \<and>
      rarities s' = rarities s \<and> items s' = items s \<and>
      history s' = history s \<and> settings s' = settings s)"
proof (cases "roll_rarity (rarities s)
          (roll_min (settings s) + (roll_max (settings s) - roll_min (settings s)) * g 0)")
  case None
  with assms have "s' = s" and "result' = result"
    by (simp_all add: draw_cases)
  with None show ?thesis by simp
next
  case (Some r)
  obtain pick g2 where pick: "pick_item_by_rarity (items s) (rid r) (\<lambda>n. g (Suc n)) = (pick, g2)"
    by (cases "pick_item_by_rarity (items s) (rid r) (\<lambda>n. g (Suc n))") auto
  show ?thesis
  proof (cases pick)
    case None
    with assms Some pick have same: "s' = s" "result' = result"
      by (simp_all add: draw_cases)
    from pick None have "candidates (items s) (rid r) = []"
      using pick_item_by_rarity_None [of "items s" "rid r" "\<lambda>n. g (Suc n)"] by simp
    with same Some show ?thesis by simp
  next
    case (Some i)
    with assms \<open>roll_rarity _ _ = Some r\<close> pick
    have s': "s' = record_draw r i s"
      and res: "result' = result @
         [\<lparr> dr_roll = round3 (roll_min (settings s) +
                (roll_max (settings s) - roll_min (settings s)) * g 0),
             dr_rarity = r, dr_item = i \<rparr>]"
      by (simp_all add: draw_cases)
    from pick Some have member: "i \<in> set (candidates (items s) (rid r))"
      using pick_item_by_rarity_Some [of "items s" "rid r" "\<lambda>n. g (Suc n)" i g2] by simp
    then have nonempty: "candidates (items s) (rid r) \<noteq> []" by auto
    from \<open>roll_rarity _ _ = Some r\<close> member nonempty show ?thesis
      by (simp add: s' res record_draw_def)
  qed
qed


lemma shop_draw_hit:
  "draw (rand env0, shop, []) =
     (rand env0, record_draw common knife shop,
      [\<lparr> dr_roll = 50, dr_rarity = common, dr_item = knife \<rparr>])"
  by (simp add: draw_cases env0_def shop_def initial_data_def rare_def common_def
        knife_def pistol_def pick_item_by_rarity_def candidates_def uniform_def
        round3_def round_half_even_def)

text \<open>
  In \<open>shop\<close> with the generator that always returns one half, the roll is 50, the rarity
  \<open>common\<close>, the item the knife. With the generator that always returns nine tenths,
  the roll is 90, no rarity matches and nothing changes.
\<close>

theorem draw_bookkeeping_witness:
  "draw (rand env0, shop, []) =
     (rand env0, record_draw common knife shop,
      [\<lparr> dr_roll = 50, dr_rarity = common, dr_item = knife \<rparr>]) \<and>
   inventory (record_draw common knife shop) ''i1'' = Some 1 \<and>
   inventory (record_draw common knife shop) ''i2'' = None \<and>
   total_opened (stats (record_draw common knife shop)) = 1 \<and>
   total_spent (stats (record_draw common knife shop)) = 1 \<and>
   by_rarity (stats (record_draw common knife shop)) ''r1'' = Some 1 \<and>
   by_item (stats (record_draw common knife shop)) ''i1'' = Some 1 \<and>
   draw (\<lambda>n. 9 / 10, shop, []) = (\<lambda>n. 9 / 10, shop, [])"
proof -
  note hit = shop_draw_hit
  have miss: "draw (\<lambda>n. 9 / 10, shop, []) = (\<lambda>n. 9 / 10, shop, [])"
    by (simp add: draw_cases shop_def initial_data_def rare_def common_def)
  have before: "inventory shop = Map.empty" "total_opened (stats shop) = 0"
    "total_spent (stats shop) = 0" "by_rarity (stats shop) = Map.empty"
    "by_item (stats shop) = Map.empty" "open_price (settings shop) = 1"
    by (simp_all add: shop_def initial_data_def)
  have ids: "iid knife = ''i1''" "rid common = ''r1''"
    by (simp_all add: knife_def common_def)
  from draw_bookkeeping [OF hit] draw_bookkeeping [OF miss] hit miss
  show ?thesis
    by (simp add: before ids dict_get_def)
qed


section \<open>The history\<close>

lemma draw_frame:
  assumes "draw (g, s, result) = (g', s', result')"
  shows "history s' = history s \<and> rarities s' = rarities s \<and> items s' = items s \<and>
         settings s' = settings s"
  using assms
  by (auto simp: draw_cases record_draw_def split: option.splits prod.splits)

lemma draws_frame:
  "draws k (g, s, result) = (g', s', result') \<Longrightarrow>
     history s' = history s \<and> rarities s' = rarities s \<and> items s' = items s \<and>
     settings s' = settings s"
proof (induction k arbitrary: g s result)
  case 0
  then show ?case by simp
next
  case (Suc k)
  obtain g1 s1 result1 where step: "draw (g, s, result) = (g1, s1, result1)"
    by (cases "draw (g, s, result)") auto
  with Suc.prems have "draws k (g1, s1, result1) = (g', s', result')" by simp
  from Suc.IH [OF this] draw_frame [OF step] show ?case by simp
qed

lemma history_step_same: "history_step e old old"
  by (simp add: history_step_def)

lemma history_step_append: "history_step e (history s) (history (append_history e act p s))"
  by (auto simp: history_step_def append_history_def)

lemma open_case_history: "history_step e (history s) (history (snd (open_case e n s)))"
proof (cases "validate_rarity_ranges s")
  case None
  obtain g s1 result where d: "draws (nat (clamp_times n)) (rand e, s, []) = (g, s1, result)"
    by (cases "draws (nat (clamp_times n)) (rand e, s, [])") auto
  from draws_frame [OF d] have "history s1 = history s" by simp
  with history_step_append [of e s1 "''open_case''"] None d show ?thesis
    by (simp add: open_case_def Let_def)
next
  case (Some m)
  then show ?thesis by (simp add: open_case_def Let_def history_step_same)
qed

lemma add_rarity_history: "history_step e (history s) (history (snd (add_rarity e p s)))"
  using history_step_append [of e "s\<lparr> rarities := rs \<rparr>" for rs]
  by (auto simp: add_rarity_def Let_def history_step_same split: option.splits)

lemma update_rarity_history:
  "history_step e (history s) (history (snd (update_rarity e the_id p s)))"
  using history_step_append [of e "s\<lparr> rarities := rs \<rparr>" for rs]
  by (auto simp: update_rarity_def Let_def history_step_same split: option.splits)

lemma delete_rarity_history:
  "history_step e (history s) (history (snd (delete_rarity e the_id s)))"
  using history_step_append [of e "s\<lparr> rarities := rs \<rparr>" for rs]
  by (auto simp: delete_rarity_def Let_def history_step_same)

lemma add_item_history: "history_step e (history s) (history (snd (add_item e p s)))"
  using history_step_append [of e "s\<lparr> items := is \<rparr>" for "is"]
  by (auto simp: add_item_def Let_def history_step_same split: option.splits)

lemma update_item_history:
  "history_step e (history s) (history (snd (update_item e the_id p s)))"
  using history_step_append [of e "s\<lparr> items := is \<rparr>" for "is"]
  by (auto simp: update_item_def Let_def history_step_same split: option.splits)

lemma delete_item_history:
  "history_step e (history s) (history (snd (delete_item e the_id s)))"
  using history_step_append [of e "s\<lparr> items := is, inventory := inv \<rparr>" for "is" inv]
  by (auto simp: delete_item_def Let_def history_step_same)

lemma adjust_inventory_history:
  "history_step e (history s) (history (snd (adjust_inventory e the_id delta s)))"
  using history_step_append [of e "s\<lparr> inventory := inv \<rparr>" for inv]
  by (auto simp: adjust_inventory_def Let_def history_step_same)

lemma update_settings_history:
  "history_step e (history s) (history (snd (update_settings e p s)))"
  using history_step_append [of e "s\<lparr> settings := st \<rparr>" for st]
  by (auto simp: update_settings_def Let_def history_step_same split: option.splits)

lemma reset_stats_history: "history_step e (history s) (history (snd (reset_stats e s)))"
  using history_step_append [of e "s\<lparr> stats := st \<rparr>" for st]
  by (auto simp: reset_stats_def)

lemma clear_history_history: "history_step e (history s) (history (snd (clear_history s)))"
  by (simp add: clear_history_def history_step_def)

lemma handle_history: "history_step e (history s) (history (snd (handle e q s)))"
  by (cases q)
     (simp_all add: open_case_history add_rarity_history update_rarity_history
        delete_rarity_history add_item_history update_item_history delete_item_history
        adjust_inventory_history update_settings_history reset_stats_history
        clear_history_history history_step_same)

lemma history_step_bound:
  "history_step e old new \<Longrightarrow> length old \<le> 500 \<Longrightarrow> length new \<le> 500"
  by (auto simp: history_step_def)

lemma run_bound: "length (history s) \<le> 500 \<Longrightarrow> length (history (run qs s)) \<le> 500"
proof (induction qs arbitrary: s)
  case Nil
  then show ?case by simp
next
  case (Cons eq qs)
  obtain e q where eq: "eq = (e, q)" by (cases eq)
  from handle_history [of e s q] Cons.prems
  have "length (history (snd (handle e q s))) \<le> 500"
    by (rule history_step_bound)
  then have "length (history (run qs (snd (handle e q s)))) \<le> 500"
    by (rule Cons.IH)
  with eq show ?case by simp
qed


text \<open>
  Claim C9. After any sequence of requests on the store that \<^verbatim>\<open>__init__\<close> builds, or
  on any store whose history has at most 500 entries, the history has at most 500
  entries. \<open>append_history\<close> puts the new entry at
  index 0, keeps the earlier entries behind it in their order, and keeps the first 500
  of the list: whatever the history was, the result has at most 500 entries, and when
  the history already had 500 or more, the entries that are dropped are the ones from
  index 499 on, the oldest, at the end of the list. A request does nothing else to the
  history than leave it, clear it, or append in this way.
\<close>

theorem history_capped_newest_first:
  "length (history (run qs initial_data)) \<le> 500 \<and>
   (length (history s) \<le> 500 \<longrightarrow> length (history (run qs s)) \<le> 500) \<and>
   length (history (append_history e act p s)) \<le> 500 \<and>
   history (append_history e act p s) =
     \<lparr> eid = hist_id e, timestamp = now e, action = act, payload = p \<rparr> #
     take 499 (history s) \<and>
   (500 \<le> length (history s) \<longrightarrow>
      history (append_history e act p s) @ drop 499 (history s) =
        \<lparr> eid = hist_id e, timestamp = now e, action = act, payload = p \<rparr> # history s) \<and>
   (length (history s) < 500 \<longrightarrow>
      history (append_history e act p s) =
        \<lparr> eid = hist_id e, timestamp = now e, action = act, payload = p \<rparr> # history s) \<and>
   (history (snd (handle e q s)) = history s \<or>
    history (snd (handle e q s)) = [] \<or>
    (\<exists>act' p'. history (snd (handle e q s)) =
        \<lparr> eid = hist_id e, timestamp = now e, action = act', payload = p' \<rparr> #
        take 499 (history s)))"
proof -
  have cons: "take 500 (x # xs) = x # take 499 xs" for x :: entry and xs
    by (simp add: take_Cons')
  have bound: "length (history s) \<le> 500 \<longrightarrow> length (history (run qs s)) \<le> 500"
    by (simp add: run_bound)
  have app: "history (append_history e act p s) =
     \<lparr> eid = hist_id e, timestamp = now e, action = act, payload = p \<rparr> #
     take 499 (history s)"
    by (simp add: append_history_def cons)
  have step: "history (snd (handle e q s)) = history s \<or>
    history (snd (handle e q s)) = [] \<or>
    (\<exists>act' p'. history (snd (handle e q s)) =
        \<lparr> eid = hist_id e, timestamp = now e, action = act', payload = p' \<rparr> #
        take 499 (history s))"
    using handle_history [of e s q] by (simp add: history_step_def cons)
  have init: "length (history (run qs initial_data)) \<le> 500"
    by (rule run_bound) (simp add: initial_data_def)
  from init bound step show ?thesis
    by (simp add: app)
qed

text \<open>
  The history of \<open>full\<close> has 500 entries. One more request keeps 500: the new entry and
  the first 499 of the old ones.
\<close>

theorem history_capped_newest_first_witness:
  "length (history full) = 500 \<and>
   length (history (run [(env0, ResetStats), (env0, DeleteItem ''i1'')] full)) \<le> 500 \<and>
   history (append_history env0 ''reset_stats'' PEmpty full) =
     \<lparr> eid = ''h'', timestamp = 1700000000, action = ''reset_stats'', payload = PEmpty \<rparr> #
     replicate 499 old_entry \<and>
   history (append_history env0 ''reset_stats'' PEmpty full) @ [old_entry] =
     \<lparr> eid = ''h'', timestamp = 1700000000, action = ''reset_stats'', payload = PEmpty \<rparr> #
     history full \<and>
   length (history shop) < 500 \<and>
   history (append_history env0 ''reset_stats'' PEmpty shop) =
     [\<lparr> eid = ''h'', timestamp = 1700000000, action = ''reset_stats'', payload = PEmpty \<rparr>]"
proof -
  have len: "length (history full) = 500"
    by (simp add: full_def)
  have old: "take 499 (history full) = replicate 499 old_entry"
    "drop 499 (history full) = [old_entry]"
    by (simp_all add: full_def)
  have empty: "history shop = []"
    by (simp add: shop_def initial_data_def)
  have e0: "hist_id env0 = ''h''" "now env0 = 1700000000"
    by (simp_all add: env0_def)
  note t = history_capped_newest_first
    [where s = full and qs = "[(env0, ResetStats), (env0, DeleteItem ''i1'')]" and e = env0
       and act = "''reset_stats''" and p = PEmpty and q = GetState]
  note u = history_capped_newest_first
    [where s = shop and qs = "[]" and e = env0 and act = "''reset_stats''" and p = PEmpty
       and q = GetState]
  from t have a: "length (history (run [(env0, ResetStats), (env0, DeleteItem ''i1'')] full)) \<le> 500"
    using len by simp
  from t have b: "history (append_history env0 ''reset_stats'' PEmpty full) =
     \<lparr> eid = ''h'', timestamp = 1700000000, action = ''reset_stats'', payload = PEmpty \<rparr> #
     replicate 499 old_entry"
    by (simp add: old e0)
  have ge: "500 \<le> length (history full)"
    by (simp add: len)
  from t ge have "history (append_history env0 ''reset_stats'' PEmpty full) @
      drop 499 (history full) =
     \<lparr> eid = hist_id env0, timestamp = now env0, action = ''reset_stats'',
        payload = PEmpty \<rparr> # history full"
    by blast
  then have c: "history (append_history env0 ''reset_stats'' PEmpty full) @ [old_entry] =
     \<lparr> eid = ''h'', timestamp = 1700000000, action = ''reset_stats'', payload = PEmpty \<rparr> #
     history full"
    unfolding old e0 .
  from u empty have d: "history (append_history env0 ''reset_stats'' PEmpty shop) =
     [\<lparr> eid = ''h'', timestamp = 1700000000, action = ''reset_stats'', payload = PEmpty \<rparr>]"
    by (simp add: e0)
  from len a b c d empty show ?thesis by simp
qed


section \<open>One history entry for each successful change\<close>

lemma take_500_Cons: "take 500 (x # xs) = x # take 499 xs"
  by (simp add: take_Cons')

lemma appended_append_history: "appended e (history s) (history (append_history e act p s))"
  by (auto simp: appended_def append_history_def take_500_Cons)

lemma open_case_appends:
  assumes "fst (open_case e n s) = OkResults result"
  shows "history (snd (open_case e n s)) =
     \<lparr> eid = hist_id e, timestamp = now e, action = ''open_case'',
        payload = POpenCase (clamp_times n) (take 10 result) (length result) \<rparr> #
     take 499 (history s)"
proof (cases "validate_rarity_ranges s")
  case None
  obtain g s1 res where d: "draws (nat (clamp_times n)) (rand e, s, []) = (g, s1, res)"
    by (cases "draws (nat (clamp_times n)) (rand e, s, [])") auto
  from draws_frame [OF d] have same: "history s1 = history s" by simp
  from assms None d have "res = result"
    by (simp add: open_case_def Let_def)
  with None d same show ?thesis
    by (simp add: open_case_def Let_def append_history_def take_500_Cons)
next
  case (Some m)
  with assms show ?thesis by (simp add: open_case_def Let_def)
qed

lemma add_rarity_appends:
  "fst (add_rarity e p s) = Ok \<Longrightarrow> appended e (history s) (history (snd (add_rarity e p s)))"
  using appended_append_history [of e "s\<lparr> rarities := rs \<rparr>" for rs]
  by (auto simp: add_rarity_def Let_def split: option.splits)

lemma update_rarity_appends:
  "fst (update_rarity e the_id p s) = Ok \<Longrightarrow>
     appended e (history s) (history (snd (update_rarity e the_id p s)))"
  using appended_append_history [of e "s\<lparr> rarities := rs \<rparr>" for rs]
  by (auto simp: update_rarity_def Let_def split: option.splits)

lemma delete_rarity_appends:
  "fst (delete_rarity e the_id s) = Ok \<Longrightarrow>
     appended e (history s) (history (snd (delete_rarity e the_id s)))"
  using appended_append_history [of e "s\<lparr> rarities := rs \<rparr>" for rs]
  by (auto simp: delete_rarity_def Let_def split: if_splits)

lemma add_item_appends:
  "fst (add_item e p s) = Ok \<Longrightarrow> appended e (history s) (history (snd (add_item e p s)))"
  using appended_append_history [of e "s\<lparr> items := is \<rparr>" for "is"]
  by (auto simp: add_item_def Let_def split: option.splits if_splits)

lemma update_item_appends:
  "fst (update_item e the_id p s) = Ok \<Longrightarrow>
     appended e (history s) (history (snd (update_item e the_id p s)))"
  using appended_append_history [of e "s\<lparr> items := is \<rparr>" for "is"]
  by (auto simp: update_item_def Let_def split: option.splits if_splits)

lemma delete_item_appends:
  "fst (delete_item e the_id s) = Ok \<Longrightarrow>
     appended e (history s) (history (snd (delete_item e the_id s)))"
  using appended_append_history [of e "s\<lparr> items := is, inventory := inv \<rparr>" for "is" inv]
  by (auto simp: delete_item_def Let_def split: if_splits)

lemma adjust_inventory_appends:
  "fst (adjust_inventory e the_id delta s) = Ok \<Longrightarrow>
     appended e (history s) (history (snd (adjust_inventory e the_id delta s)))"
  using appended_append_history [of e "s\<lparr> inventory := inv \<rparr>" for inv]
  by (auto simp: adjust_inventory_def Let_def split: if_splits)

lemma update_settings_appends:
  "fst (update_settings e p s) = Ok \<Longrightarrow>
     appended e (history s) (history (snd (update_settings e p s)))"
  using appended_append_history [of e "s\<lparr> settings := st \<rparr>" for st]
  by (auto simp: update_settings_def Let_def split: option.splits)

lemma reset_stats_appends: "appended e (history s) (history (snd (reset_stats e s)))"
  using appended_append_history [of e "s\<lparr> stats := st \<rparr>" for st]
  by (auto simp: reset_stats_def)

lemma response_of_op:
  "fst (add_rarity e rp s) \<noteq> OkResults rs" "fst (update_rarity e k rp s) \<noteq> OkResults rs"
  "fst (delete_rarity e k s) \<noteq> OkResults rs" "fst (add_item e ip s) \<noteq> OkResults rs"
  "fst (update_item e k ip s) \<noteq> OkResults rs" "fst (delete_item e k s) \<noteq> OkResults rs"
  "fst (adjust_inventory e k d s) \<noteq> OkResults rs" "fst (update_settings e sp s) \<noteq> OkResults rs"
  "fst (open_case e n s) \<noteq> Ok"
  by (auto simp: add_rarity_def update_rarity_def delete_rarity_def add_item_def
        update_item_def delete_item_def adjust_inventory_def update_settings_def
        open_case_def Let_def split: option.splits if_splits prod.splits)

lemma handle_appends:
  assumes "q \<noteq> ClearHistory" and "q \<noteq> GetState"
    and "fst (handle e q s) = Ok \<or> (\<exists>rs. fst (handle e q s) = OkResults rs)"
  shows "appended e (history s) (history (snd (handle e q s)))"
proof (cases q)
  case (OpenCase n)
  with assms(3) obtain rs where "fst (open_case e n s) = OkResults rs"
    by (auto simp: response_of_op)
  from open_case_appends [OF this] OpenCase show ?thesis
    by (auto simp: appended_def)
next
  case (AddRarity p)
  with assms(3) show ?thesis by (auto simp: response_of_op add_rarity_appends)
next
  case (UpdateRarity k p)
  with assms(3) show ?thesis by (auto simp: response_of_op update_rarity_appends)
next
  case (DeleteRarity k)
  with assms(3) show ?thesis by (auto simp: response_of_op delete_rarity_appends)
next
  case (AddItem p)
  with assms(3) show ?thesis by (auto simp: response_of_op add_item_appends)
next
  case (UpdateItem k p)
  with assms(3) show ?thesis by (auto simp: response_of_op update_item_appends)
next
  case (DeleteItem k)
  with assms(3) show ?thesis by (auto simp: response_of_op delete_item_appends)
next
  case (AdjustInventory k d)
  with assms(3) show ?thesis by (auto simp: response_of_op adjust_inventory_appends)
next
  case (UpdateSettings p)
  with assms(3) show ?thesis by (auto simp: response_of_op update_settings_appends)
next
  case ClearHistory
  with assms(1) show ?thesis by simp
next
  case ResetStats
  then show ?thesis by (simp add: reset_stats_appends)
next
  case GetState
  with assms(2) show ?thesis by simp
qed


text \<open>
  Claim C5 as the specification states it fails for \<open>clear_history\<close>: the call succeeds
  and leaves a history without any entry, so no entry for the call itself is there.
\<close>

theorem clear_history_appends_nothing:
  "fst (clear_history full) = Ok \<and> length (history full) = 500 \<and>
   history (snd (clear_history full)) = []"
  by (simp add: clear_history_def full_def)

text \<open>
  Claim C5, amended. Every request that changes the store and succeeds, other than
  \<open>clear_history\<close>, appends exactly one history entry: the history after the call is
  one new entry, with the id and the time of the call, followed by the first 499
  entries of the history before the call. For \<open>open_case\<close> this one entry stands for
  the whole batch: its payload holds the clamped count, the first 10 results at most,
  and the number of all results. \<open>clear_history\<close> succeeds, appends no entry and
  leaves the history empty.
\<close>

theorem success_appends_one_entry:
  "(q \<noteq> ClearHistory \<and> q \<noteq> GetState \<and>
    (fst (handle e q s) = Ok \<or> (\<exists>rs. fst (handle e q s) = OkResults rs)) \<longrightarrow>
      (\<exists>act p. history (snd (handle e q s)) =
         \<lparr> eid = hist_id e, timestamp = now e, action = act, payload = p \<rparr> #
         take 499 (history s))) \<and>
   (fst (open_case e n s) = OkResults result \<longrightarrow>
      history (snd (open_case e n s)) =
        \<lparr> eid = hist_id e, timestamp = now e, action = ''open_case'',
           payload = POpenCase (clamp_times n) (take 10 result) (length result) \<rparr> #
        take 499 (history s) \<and>
      length (take 10 result) \<le> 10 \<and>
      (\<exists>rest. result = take 10 result @ rest)) \<and>
   fst (clear_history s) = Ok \<and>
   history (snd (clear_history s)) = []"
proof -
  have any: "q \<noteq> ClearHistory \<and> q \<noteq> GetState \<and>
    (fst (handle e q s) = Ok \<or> (\<exists>rs. fst (handle e q s) = OkResults rs)) \<longrightarrow>
      (\<exists>act p. history (snd (handle e q s)) =
         \<lparr> eid = hist_id e, timestamp = now e, action = act, payload = p \<rparr> #
         take 499 (history s))"
    using handle_appends [of q e s] by (auto simp: appended_def)
  have batch: "fst (open_case e n s) = OkResults result \<longrightarrow>
      history (snd (open_case e n s)) =
        \<lparr> eid = hist_id e, timestamp = now e, action = ''open_case'',
           payload = POpenCase (clamp_times n) (take 10 result) (length result) \<rparr> #
        take 499 (history s)"
    using open_case_appends [of e n s result] by blast
  have pre: "\<exists>rest. result = take 10 result @ rest"
    by (rule exI [of _ "drop 10 result"]) simp
  from any batch pre show ?thesis
    by (simp add: clear_history_def)
qed

text \<open>
  \<open>reset_stats\<close> on the full history, and one draw in \<open>shop\<close>, whose history is
  empty.
\<close>

theorem success_appends_one_entry_witness:
  "ResetStats \<noteq> ClearHistory \<and> ResetStats \<noteq> GetState \<and>
   fst (handle env0 ResetStats full) = Ok \<and>
   (\<exists>act p. history (snd (handle env0 ResetStats full)) =
      \<lparr> eid = ''h'', timestamp = 1700000000, action = act, payload = p \<rparr> #
      replicate 499 old_entry) \<and>
   fst (open_case env0 1 shop) =
     OkResults [\<lparr> dr_roll = 50, dr_rarity = common, dr_item = knife \<rparr>] \<and>
   history (snd (open_case env0 1 shop)) =
     [\<lparr> eid = ''h'', timestamp = 1700000000, action = ''open_case'',
         payload = POpenCase 1 [\<lparr> dr_roll = 50, dr_rarity = common, dr_item = knife \<rparr>] 1 \<rparr>]"
proof -
  have ok: "fst (handle env0 ResetStats full) = Ok"
    by (simp add: reset_stats_def)
  have old: "take 499 (history full) = replicate 499 old_entry"
    by (simp add: full_def)
  have empty: "history shop = []"
    by (simp add: shop_def initial_data_def)
  have e0: "hist_id env0 = ''h''" "now env0 = 1700000000"
    by (simp_all add: env0_def)
  have one: "clamp_times 1 = 1"
    by (simp add: clamp_times_def)
  have batch: "fst (open_case env0 1 shop) =
     OkResults [\<lparr> dr_roll = 50, dr_rarity = common, dr_item = knife \<rparr>]"
    by (simp add: open_case_def Let_def shop_valid one shop_draw_hit)
  note t = success_appends_one_entry
    [where q = ResetStats and e = env0 and s = full and n = 1 and result = "[]"]
  note u = success_appends_one_entry
    [where q = ResetStats and e = env0 and s = shop and n = 1
       and result = "[\<lparr> dr_roll = 50, dr_rarity = common, dr_item = knife \<rparr>]"]
  from t ok have a: "\<exists>act p. history (snd (handle env0 ResetStats full)) =
      \<lparr> eid = ''h'', timestamp = 1700000000, action = act, payload = p \<rparr> #
      replicate 499 old_entry"
    by (simp add: old e0)
  from u batch have b: "history (snd (open_case env0 1 shop)) =
     [\<lparr> eid = ''h'', timestamp = 1700000000, action = ''open_case'',
         payload = POpenCase 1 [\<lparr> dr_roll = 50, dr_rarity = common, dr_item = knife \<rparr>] 1 \<rparr>]"
    by (simp add: empty e0 one)
  from ok a batch b show ?thesis by simp
qed


section \<open>The weights of the stored items\<close>

lemma set_replace_first: "set (replace_first P y xs) \<subseteq> insert y (set xs)"
  by (induction xs) auto

lemma find_member: "find P xs = Some x \<Longrightarrow> x \<in> set xs"
  by (induction xs) (auto split: if_splits)

lemma open_case_items: "items (snd (open_case e n s)) = items s"
proof (cases "validate_rarity_ranges s")
  case None
  obtain g s1 result where d: "draws (nat (clamp_times n)) (rand e, s, []) = (g, s1, result)"
    by (cases "draws (nat (clamp_times n)) (rand e, s, [])") auto
  from draws_frame [OF d] have "items s1 = items s" by simp
  with None d show ?thesis
    by (simp add: open_case_def Let_def append_history_def)
next
  case (Some m)
  then show ?thesis by (simp add: open_case_def Let_def)
qed

lemma other_items:
  "items (snd (add_rarity e rp s)) = items s"
  "items (snd (update_rarity e k rp s)) = items s"
  "items (snd (delete_rarity e k s)) = items s"
  "items (snd (adjust_inventory e k d s)) = items s"
  "items (snd (update_settings e sp s)) = items s"
  "items (snd (clear_history s)) = items s"
  "items (snd (reset_stats e s)) = items s"
  by (simp_all add: add_rarity_def update_rarity_def delete_rarity_def adjust_inventory_def
        update_settings_def clear_history_def reset_stats_def append_history_def Let_def
        split: option.splits)

lemma add_item_weights:
  assumes "\<forall>i \<in> set (items s). 0 \<le> weight i" and "0 \<le> dict_get (ip_weight p) 0"
  shows "\<forall>i \<in> set (items (snd (add_item e p s))). 0 \<le> weight i"
proof -
  from assms(2) have "0 \<le> dict_get (ip_weight p) 1"
    by (cases "ip_weight p") (simp_all add: dict_get_def)
  with assms(1) show ?thesis
    by (auto simp: add_item_def Let_def append_history_def split: option.splits)
qed

lemma update_item_weights:
  assumes "\<forall>i \<in> set (items s). 0 \<le> weight i" and "0 \<le> dict_get (ip_weight p) 0"
  shows "\<forall>i \<in> set (items (snd (update_item e k p s))). 0 \<le> weight i"
proof (cases "find (\<lambda>i. iid i = k) (items s)")
  case None
  with assms(1) show ?thesis by (simp add: update_item_def)
next
  case (Some i)
  then have "i \<in> set (items s)" by (rule find_member)
  with assms have new: "0 \<le> weight (patch_item p i)"
    by (cases "ip_weight p") (simp_all add: patch_item_def dict_get_def)
  have "set (replace_first (\<lambda>i. iid i = k) (patch_item p i) (items s))
          \<subseteq> insert (patch_item p i) (set (items s))"
    by (rule set_replace_first)
  with new assms(1)
  have "\<forall>j \<in> set (replace_first (\<lambda>i. iid i = k) (patch_item p i) (items s)). 0 \<le> weight j"
    by auto
  with Some assms(1) show ?thesis
    by (simp add: update_item_def Let_def append_history_def)
qed

lemma delete_item_weights:
  assumes "\<forall>i \<in> set (items s). 0 \<le> weight i"
  shows "\<forall>i \<in> set (items (snd (delete_item e k s))). 0 \<le> weight i"
  using assms by (simp add: delete_item_def Let_def append_history_def)

lemma handle_weights:
  assumes "\<forall>i \<in> set (items s). 0 \<le> weight i" and "weight_ok q"
  shows "\<forall>i \<in> set (items (snd (handle e q s))). 0 \<le> weight i"
proof (cases q)
  case (AddItem p)
  with assms(2) have "0 \<le> dict_get (ip_weight p) 0" by simp
  with assms(1) have "\<forall>i \<in> set (items (snd (add_item e p s))). 0 \<le> weight i"
    by (rule add_item_weights)
  with AddItem show ?thesis by simp
next
  case (UpdateItem k p)
  with assms(2) have "0 \<le> dict_get (ip_weight p) 0" by simp
  with assms(1) have "\<forall>i \<in> set (items (snd (update_item e k p s))). 0 \<le> weight i"
    by (rule update_item_weights)
  with UpdateItem show ?thesis by simp
next
  case (DeleteItem k)
  from assms(1) have "\<forall>i \<in> set (items (snd (delete_item e k s))). 0 \<le> weight i"
    by (rule delete_item_weights)
  with DeleteItem show ?thesis by simp
next
  case (OpenCase n)
  with assms(1) show ?thesis by (simp add: open_case_items)
next
  case (AddRarity p)
  with assms(1) show ?thesis by (simp add: other_items)
next
  case (UpdateRarity k p)
  with assms(1) show ?thesis by (simp add: other_items)
next
  case (DeleteRarity k)
  with assms(1) show ?thesis by (simp add: other_items)
next
  case (AdjustInventory k d)
  with assms(1) show ?thesis by (simp add: other_items)
next
  case (UpdateSettings p)
  with assms(1) show ?thesis by (simp add: other_items)
next
  case ClearHistory
  with assms(1) show ?thesis by (simp add: other_items)
next
  case ResetStats
  with assms(1) show ?thesis by (simp add: other_items)
next
  case GetState
  with assms(1) show ?thesis by simp
qed

lemma run_weights:
  assumes "\<forall>i \<in> set (items s). 0 \<le> weight i" and "\<forall>eq \<in> set qs. weight_ok (snd eq)"
  shows "\<forall>i \<in> set (items (run qs s)). 0 \<le> weight i"
  using assms
proof (induction qs arbitrary: s)
  case Nil
  then show ?case by simp
next
  case (Cons eq qs)
  obtain e q where eq: "eq = (e, q)" by (cases eq)
  with Cons.prems have "weight_ok q" by simp
  with Cons.prems(1) have "\<forall>i \<in> set (items (snd (handle e q s))). 0 \<le> weight i"
    by (rule handle_weights)
  moreover from Cons.prems have "\<forall>eq \<in> set qs. weight_ok (snd eq)" by simp
  ultimately have "\<forall>i \<in> set (items (run qs (snd (handle e q s)))). 0 \<le> weight i"
    by (rule Cons.IH)
  with eq show ?case by simp
qed

text \<open>
  Claim C3 as the specification states it fails: \<open>add_item\<close> and \<open>update_item\<close> store
  the weight of the payload without looking at its sign.
\<close>

theorem negative_weight_is_stored:
  "fst (add_item env0 cursed shop) = Ok \<and>
   map weight (items (snd (add_item env0 cursed shop))) = [10, 6, - 5] \<and>
   fst (update_item env0 ''i1'' cursed shop) = Ok \<and>
   map weight (items (snd (update_item env0 ''i1'' cursed shop))) = [- 5, 6]"
  by (simp add: add_item_def update_item_def rarity_map_def cursed_def shop_def
        initial_data_def knife_def pistol_def common_def rare_def dict_get_def
        patch_item_def append_history_def Let_def)

text \<open>
  Claim C3, amended. \<open>add_item\<close> and \<open>update_item\<close> store the weight as the payload
  gives it (1 for \<open>add_item\<close>, the old weight for \<open>update_item\<close>, when the payload has
  none). So when every stored item has a weight of at least 0 and no request of the
  sequence carries a negative weight, every stored item has a weight of at least 0
  after the sequence.
\<close>

theorem weights_stay_nonnegative:
  "((\<forall>i \<in> set (items s). 0 \<le> weight i) \<and> (\<forall>eq \<in> set qs. weight_ok (snd eq)) \<longrightarrow>
      (\<forall>i \<in> set (items (run qs s)). 0 \<le> weight i)) \<and>
   (fst (add_item e p s) = Ok \<longrightarrow>
      (\<exists>i. items (snd (add_item e p s)) = items s @ [i] \<and>
           weight i = dict_get (ip_weight p) 1)) \<and>
   (fst (update_item e k p s) = Ok \<longrightarrow>
      (\<exists>i \<in> set (items s). iid i = k \<and>
         items (snd (update_item e k p s)) =
           replace_first (\<lambda>i. iid i = k) (patch_item p i) (items s) \<and>
         weight (patch_item p i) = dict_get (ip_weight p) (weight i)))"
proof -
  have seq: "(\<forall>i \<in> set (items s). 0 \<le> weight i) \<and> (\<forall>eq \<in> set qs. weight_ok (snd eq)) \<longrightarrow>
      (\<forall>i \<in> set (items (run qs s)). 0 \<le> weight i)"
    using run_weights [of s qs] by blast
  have add: "fst (add_item e p s) = Ok \<longrightarrow>
      (\<exists>i. items (snd (add_item e p s)) = items s @ [i] \<and>
           weight i = dict_get (ip_weight p) 1)"
    by (auto simp: add_item_def Let_def append_history_def split: option.splits if_splits)
  have upd: "fst (update_item e k p s) = Ok \<longrightarrow>
      (\<exists>i \<in> set (items s). iid i = k \<and>
         items (snd (update_item e k p s)) =
           replace_first (\<lambda>i. iid i = k) (patch_item p i) (items s) \<and>
         weight (patch_item p i) = dict_get (ip_weight p) (weight i))"
  proof (cases "find (\<lambda>i. iid i = k) (items s)")
    case None
    then show ?thesis by (simp add: update_item_def)
  next
    case (Some i)
    then have "i \<in> set (items s)" by (rule find_member)
    moreover from Some have "iid i = k"
      by (auto simp: find_Some_iff)
    ultimately show ?thesis using Some
      by (auto simp: update_item_def Let_def append_history_def patch_item_def
            split: if_splits)
  qed
  show ?thesis
    by (rule conjI [OF seq conjI [OF add upd]])
qed


text \<open>
  In \<open>shop\<close> both weights are positive. Adding an item with the weight 0 and giving the
  knife the weight 0 leaves three items, none of a negative weight.
\<close>

theorem weights_stay_nonnegative_witness:
  "0 \<le> weight knife \<and> 0 \<le> weight pistol \<and>
   weight_ok (AddItem blessed) \<and> weight_ok (UpdateItem ''i1'' blessed) \<and>
   list_all (\<lambda>i. 0 \<le> weight i)
     (items (run [(env0, AddItem blessed), (env0, UpdateItem ''i1'' blessed)] shop)) \<and>
   fst (add_item env0 blessed shop) = Ok \<and>
   (\<exists>i. items (snd (add_item env0 blessed shop)) = items shop @ [i] \<and> weight i = 0) \<and>
   fst (update_item env0 ''i1'' blessed shop) = Ok \<and>
   (\<exists>i. i \<in> set (items shop) \<and> iid i = ''i1'' \<and>
        items (snd (update_item env0 ''i1'' blessed shop)) =
          replace_first (\<lambda>i. iid i = ''i1'') (patch_item blessed i) (items shop) \<and>
        weight (patch_item blessed i) = 0)"
proof -
  have start: "\<forall>i \<in> set (items shop). 0 \<le> weight i"
    by (simp add: shop_def knife_def pistol_def)
  have reqs: "\<forall>eq \<in> set [(env0, AddItem blessed), (env0, UpdateItem ''i1'' blessed)].
                weight_ok (snd eq)"
    by (simp add: blessed_def dict_get_def)
  have given: "dict_get (ip_weight blessed) 1 = 0" "dict_get (ip_weight blessed) w = 0" for w
    by (simp_all add: blessed_def dict_get_def)
  have added: "fst (add_item env0 blessed shop) = Ok"
    by (simp add: add_item_def rarity_map_def blessed_def shop_def common_def rare_def Let_def)
  have updated: "fst (update_item env0 ''i1'' blessed shop) = Ok"
    by (simp add: update_item_def rarity_map_def blessed_def shop_def common_def rare_def
          knife_def Let_def)
  note t = weights_stay_nonnegative
    [where s = shop and qs = "[(env0, AddItem blessed), (env0, UpdateItem ''i1'' blessed)]"
       and e = env0 and p = blessed and k = "''i1''"]
  from t start reqs
  have a: "\<forall>i \<in> set (items (run [(env0, AddItem blessed), (env0, UpdateItem ''i1'' blessed)]
                                shop)). 0 \<le> weight i"
    by blast
  then have a': "list_all (\<lambda>i. 0 \<le> weight i)
     (items (run [(env0, AddItem blessed), (env0, UpdateItem ''i1'' blessed)] shop))"
    by (simp only: list_all_iff)
  from t added
  have b: "\<exists>i. items (snd (add_item env0 blessed shop)) = items shop @ [i] \<and> weight i = 0"
    by (simp add: given)
  from t updated
  have c: "\<exists>i. i \<in> set (items shop) \<and> iid i = ''i1'' \<and>
        items (snd (update_item env0 ''i1'' blessed shop)) =
          replace_first (\<lambda>i. iid i = ''i1'') (patch_item blessed i) (items shop) \<and>
        weight (patch_item blessed i) = 0"
    by (auto simp: given)
  have d: "0 \<le> weight knife \<and> 0 \<le> weight pistol"
    by (simp add: knife_def pistol_def)
  have e: "weight_ok (AddItem blessed) \<and> weight_ok (UpdateItem ''i1'' blessed)"
    by (simp add: blessed_def dict_get_def)
  from a' b c d e added updated show ?thesis by blast
qed


section \<open>Requests that the validator rejects\<close>

text \<open>\<open>add_rarity\<close> takes the new entry off the list again: a rejected call changes nothing.\<close>

lemma add_rarity_rolls_back:
  "fst (add_rarity e p s) = Fail m \<Longrightarrow> snd (add_rarity e p s) = s"
  by (auto simp: add_rarity_def Let_def split: option.splits)

lemma add_rarity_overlap_rejected:
  "add_rarity env0 overlapping shop = (Fail (RangesOverlap ''Common'' ''Odd''), shop)"
  by (simp add: add_rarity_def overlapping_def validate_rarity_ranges_def shop_def
        initial_data_def rare_def common_def env0_def dict_get_def Let_def)

text \<open>
  Claim C1. \<open>update_settings\<close> and \<open>update_rarity\<close> write the new values into the store
  before they validate and return the failure without restoring the old values.
  In \<open>shop\<close>, whose settings are \<open>roll_min = 0\<close> and \<open>roll_max = 100\<close>, the request
  \<open>roll_min = 200\<close> is rejected and \<open>roll_min\<close> is 200 afterwards, so that every later
  \<open>open_case\<close> is rejected too; the request \<open>min_roll = 70\<close> for the rarity \<open>common\<close>,
  whose \<open>max_roll\<close> is 60, is rejected and \<open>min_roll\<close> is 70 afterwards.
\<close>

theorem rejected_update_is_kept:
  "fst (update_settings env0 too_high shop) = Fail RollMinNotBelowRollMax \<and>
   roll_min (settings shop) = 0 \<and>
   roll_min (settings (snd (update_settings env0 too_high shop))) = 200 \<and>
   snd (update_settings env0 too_high shop) \<noteq> shop \<and>
   validate_rarity_ranges shop = None \<and>
   fst (open_case env0 1 (snd (update_settings env0 too_high shop))) =
     Fail RollMinNotBelowRollMax \<and>
   fst (update_rarity env0 ''r1'' inverted shop) = Fail (MinAboveMax ''Common'') \<and>
   map min_roll (rarities shop) = [60, 0] \<and>
   map min_roll (rarities (snd (update_rarity env0 ''r1'' inverted shop))) = [60, 70] \<and>
   snd (update_rarity env0 ''r1'' inverted shop) \<noteq> shop"
proof -
  have settings_run: "update_settings env0 too_high shop =
     (Fail RollMinNotBelowRollMax,
      shop \<lparr> settings := \<lparr> roll_min = 200, roll_max = 100, open_price = 1 \<rparr> \<rparr>)"
    by (simp add: update_settings_def too_high_def patch_settings_def dict_get_def
          validate_rarity_ranges_def shop_def initial_data_def Let_def)
  have rarity_run: "update_rarity env0 ''r1'' inverted shop =
     (Fail (MinAboveMax ''Common''),
      shop \<lparr> rarities := [rare, common \<lparr> min_roll := 70 \<rparr>] \<rparr>)"
    by (simp add: update_rarity_def inverted_def patch_rarity_def dict_get_def
          validate_rarity_ranges_def shop_def initial_data_def rare_def common_def Let_def)
  have before: "roll_min (settings shop) = 0" "map min_roll (rarities shop) = [60, 0]"
    by (simp_all add: shop_def initial_data_def rare_def common_def)
  have changed: "shop \<lparr> settings := \<lparr> roll_min = 200, roll_max = 100, open_price = 1 \<rparr> \<rparr> \<noteq> shop"
  proof
    assume "shop \<lparr> settings := \<lparr> roll_min = 200, roll_max = 100, open_price = 1 \<rparr> \<rparr> = shop"
    then have "roll_min (settings (shop \<lparr> settings := \<lparr> roll_min = 200, roll_max = 100,
                 open_price = 1 \<rparr> \<rparr>)) = roll_min (settings shop)"
      by simp
    with before show False by simp
  qed
  have changed': "shop \<lparr> rarities := [rare, common \<lparr> min_roll := 70 \<rparr>] \<rparr> \<noteq> shop"
  proof
    assume "shop \<lparr> rarities := [rare, common \<lparr> min_roll := 70 \<rparr>] \<rparr> = shop"
    then have "map min_roll (rarities (shop \<lparr> rarities := [rare, common \<lparr> min_roll := 70 \<rparr>] \<rparr>))
                 = map min_roll (rarities shop)"
      by simp
    with before show False by (simp add: rare_def)
  qed
  have later: "fst (open_case env0 1
       (shop \<lparr> settings := \<lparr> roll_min = 200, roll_max = 100, open_price = 1 \<rparr> \<rparr>)) =
     Fail RollMinNotBelowRollMax"
    by (simp add: open_case_def validate_rarity_ranges_def Let_def)
  from before changed changed' later shop_valid show ?thesis
    by (simp add: settings_run rarity_run rare_def)
qed


section \<open>Startup\<close>

text \<open>
  Without a document (no file, a file that cannot be opened, a text that is not JSON)
  startup returns with the default catalog: four rarities and four items, the k-th item
  in the k-th rarity.
\<close>

lemma startup_without_document:
  "f = Missing \<or> f = Unreadable \<or> f = Unparsable \<Longrightarrow>
     \<exists>d. load_or_create_defaults u f = Inr d \<and>
       d ''rarities'' = Some (JArr
          [rarity_dict (u 0) name_common 0 60 ''#b0b0b0'',
           rarity_dict (u 1) name_rare 60 85 ''#4f8cff'',
           rarity_dict (u 2) name_epic 85 97 ''#bb6eff'',
           rarity_dict (u 3) name_legendary 97 100 ''#ff9f1a'']) \<and>
       d ''items'' = Some (JArr
          [item_dict (u 4) name_knife (JStr (u 0)) 10 [] text_simple,
           item_dict (u 5) name_pistol (JStr (u 1)) 6 [] text_rare_find,
           item_dict (u 6) name_sword (JStr (u 2)) 3 [] text_valuable,
           item_dict (u 7) name_crown (JStr (u 3)) 1 [] text_hardly])"
  by (auto simp: load_or_create_defaults_def seed_rarities_def seed_items_def data_get_def
        init_data_def rarity_id_at_def rarity_dict_def)

text \<open>
  Claim C4. Startup raises on well-formed JSON documents. With the document
  \<open>one_rarity_left\<close>, which the program writes itself, the rarities are not empty, the
  items are, and the second default item asks for the rarity at index 1:
  \<^verbatim>\<open>IndexError\<close>. With a document that is a number, or an array of numbers,
  \<^verbatim>\<open>dict.update\<close> raises \<^verbatim>\<open>TypeError\<close>, and with a file that is not UTF-8 the
  reading raises a \<^verbatim>\<open>ValueError\<close>; the \<^verbatim>\<open>except\<close> clause names neither.
\<close>

theorem startup_raises_on_saved_document:
  "load_or_create_defaults uuids (Loaded one_rarity_left) = Inl IndexError \<and>
   load_or_create_defaults uuids (Loaded (JNum 5)) = Inl TypeError \<and>
   load_or_create_defaults uuids (Loaded (JArr [JNum 1])) = Inl TypeError \<and>
   load_or_create_defaults uuids Undecodable = Inl ValueError"
  by (simp add: load_or_create_defaults_def seed_rarities_def seed_items_def data_get_def
        init_data_def rarity_id_at_def rarity_dict_def one_rarity_left_def)

end
